theory Spec2Isabelle
  imports Main
begin

section \<open>JavaScript values used by the program\<close>

text \<open>
  The numbers the program handles are integers (\<open>Date.now()\<close>, \<open>Math.floor\<close> results,
  \<open>parseInt\<close> results, array indices) or \<open>NaN\<close> (the result of \<open>parseInt\<close> on text that
  has no digits). Integers in the range of \<open>Date.now()\<close> are exact in a double, so they are
  modelled as \<open>int\<close>. \<open>NaN\<close> is kept apart because every comparison with it is false.
\<close>

datatype jsnum = NaN | Num int

text \<open>A value read from an array or a record field: a string, or \<open>undefined\<close>.\<close>

datatype jsval = Undefined | Str string

text \<open>
  The remainder operator \<open>%\<close> of JavaScript truncates towards zero: the result has the sign
  of the dividend. A zero divisor gives \<open>NaN\<close>.
\<close>

definition js_rem :: "int \<Rightarrow> int \<Rightarrow> jsnum" where
  "js_rem a b = (if b = 0 then NaN else Num (sgn a * (\<bar>a\<bar> mod \<bar>b\<bar>)))"

fun jsnum_rem :: "jsnum \<Rightarrow> int \<Rightarrow> jsnum" where
  "jsnum_rem NaN b = NaN"
| "jsnum_rem (Num a) b = js_rem a b"

fun jsnum_add :: "jsnum \<Rightarrow> int \<Rightarrow> jsnum" where
  "jsnum_add NaN b = NaN"
| "jsnum_add (Num a) b = Num (a + b)"

text \<open>Strict equality \<open>===\<close> on numbers: \<open>NaN\<close> equals nothing, not even itself.\<close>

fun js_eq :: "jsnum \<Rightarrow> jsnum \<Rightarrow> bool" where
  "js_eq (Num a) (Num b) = (a = b)"
| "js_eq _ _ = False"

text \<open>The relational operators on numbers: false as soon as one side is \<open>NaN\<close>.\<close>

fun js_lt :: "jsnum \<Rightarrow> jsnum \<Rightarrow> bool" where
  "js_lt (Num a) (Num b) = (a < b)"
| "js_lt _ _ = False"

fun js_gt :: "jsnum \<Rightarrow> jsnum \<Rightarrow> bool" where
  "js_gt (Num a) (Num b) = (a > b)"
| "js_gt _ _ = False"

fun js_ge :: "jsnum \<Rightarrow> jsnum \<Rightarrow> bool" where
  "js_ge (Num a) (Num b) = (a \<ge> b)"
| "js_ge _ _ = False"

section \<open>The schedule: \<open>getNextStartTime\<close>\<close>

text \<open>
  \<^verbatim>\<open>
  function getNextStartTime(digit: number): number {
      const now = Date.now();
      const currentSecond = Math.floor(now / 1000);
      const digit1 = digit % 10;
      const digit2 = (digit + 5) % 10;
      let candidateSecond = currentSecond + 1;
      while (true) {
          const lastDigit = candidateSecond % 10;
          if (lastDigit === digit1 || lastDigit === digit2) {
              return candidateSecond * 1000;
          }
          candidateSecond++;
      }
  }
  \<close>
  The clock reading \<open>Date.now()\<close> is the parameter \<open>now\<close>. The \<open>while (true)\<close> loop has
  no bound of its own, so it is a partial function: \<open>None\<close> means that it never returns.
\<close>

definition candidate_matches :: "jsnum \<Rightarrow> jsnum \<Rightarrow> int \<Rightarrow> bool" where
  "candidate_matches digit_1 digit_2 candidateSecond =
     (let lastDigit = js_rem candidateSecond 10
      in js_eq lastDigit digit_1 \<or> js_eq lastDigit digit_2)"

partial_function (option) candidate_loop :: "jsnum \<Rightarrow> jsnum \<Rightarrow> int \<Rightarrow> int option" where
  "candidate_loop digit_1 digit_2 candidateSecond =
     (if candidate_matches digit_1 digit_2 candidateSecond
      then Some (candidateSecond * 1000)
      else candidate_loop digit_1 digit_2 (candidateSecond + 1))"

declare candidate_loop.simps [code]

definition getNextStartTime :: "jsnum \<Rightarrow> int \<Rightarrow> int option" where
  "getNextStartTime digit now =
     (let currentSecond = now div 1000;
          digit_1 = jsnum_rem digit 10;
          digit_2 = jsnum_rem (jsnum_add digit 5) 10;
          candidateSecond = currentSecond + 1
      in candidate_loop digit_1 digit_2 candidateSecond)"

text \<open>
  The same loop with a bound on the number of candidate seconds it may examine; it gives up
  (\<open>None\<close>) when the bound is used up.
\<close>

fun candidate_loop_bounded :: "nat \<Rightarrow> jsnum \<Rightarrow> jsnum \<Rightarrow> int \<Rightarrow> int option" where
  "candidate_loop_bounded 0 digit_1 digit_2 candidateSecond = None"
| "candidate_loop_bounded (Suc n) digit_1 digit_2 candidateSecond =
     (if candidate_matches digit_1 digit_2 candidateSecond
      then Some (candidateSecond * 1000)
      else candidate_loop_bounded n digit_1 digit_2 (candidateSecond + 1))"

text \<open>The words of the specification: the epoch second of an instant and its last decimal digit.\<close>

definition epoch_second :: "int \<Rightarrow> int" where
  "epoch_second t = t div 1000"

definition last_decimal_digit :: "int \<Rightarrow> int" where
  "last_decimal_digit s = \<bar>s\<bar> mod 10"

definition ends_in :: "int \<Rightarrow> int \<Rightarrow> bool" where
  "ends_in d s = (last_decimal_digit s = d \<or> last_decimal_digit s = (d + 5) mod 10)"

section \<open>The fixed tables\<close>

definition PATTERNS :: "string list" where
  "PATTERNS =
    [''..-..-.-..'',
     ''.-..-..-..'',
     ''...-..-.-.'',
     ''.-...-.-..'',
     ''-.-.-.-.'',
     ''.-.-.-.-'',
     ''-..-.-.-'',
     ''..-.-.--'',
     ''-----.'',
     ''----.-'']"

definition COLORS :: "string list" where
  "COLORS =
    [''--color-secondary'',
     ''--color-accent'',
     ''--color-info'',
     ''--color-success'',
     ''--color-warning'',
     ''--color-error'']"

text \<open>
  Reading \<open>xs[n]\<close>: the element when \<open>n\<close> is an index of the array, \<open>undefined\<close> otherwise
  (also for \<open>NaN\<close>).
\<close>

fun js_index :: "string list \<Rightarrow> jsnum \<Rightarrow> jsval" where
  "js_index xs NaN = Undefined"
| "js_index xs (Num i) = (if 0 \<le> i \<and> i < int (length xs) then Str (xs ! nat i) else Undefined)"

text \<open>\<open>xs.indexOf(v)\<close>: the first index holding \<open>v\<close>, or \<open>-1\<close>.\<close>

fun indexOf_from :: "int \<Rightarrow> string list \<Rightarrow> jsval \<Rightarrow> int" where
  "indexOf_from i [] v = - 1"
| "indexOf_from i (x # xs) v = (if Str x = v then i else indexOf_from (i + 1) xs v)"

definition indexOf :: "string list \<Rightarrow> jsval \<Rightarrow> int" where
  "indexOf xs v = indexOf_from 0 xs v"

section \<open>Configurations\<close>

text \<open>
  \<open>getRandomColors\<close> returns a \<open>ColorPair\<close>. The two values of
  \<open>Math.floor(Math.random() * n)\<close> it draws are the parameters \<open>r1\<close> (for \<open>n = COLORS.length\<close>)
  and \<open>r2\<close> (for \<open>n = remaining.length\<close>); \<open>Math.random()\<close> lies in \<open>[0, 1)\<close>, so
  \<open>r1 < COLORS.length\<close> and \<open>r2 < remaining.length\<close>.
\<close>

text \<open>
  \<^verbatim>\<open>
  function getRandomColors(): ColorPair {
      const color1 = COLORS[Math.floor(Math.random() * COLORS.length)];
      const remaining = COLORS.filter(c => c !== color1);
      const color2 = remaining[Math.floor(Math.random() * remaining.length)];
      return { color1, color2 };
  }
  \<close>
\<close>

datatype ColorPair = ColorPair (color1: jsval) (color2: jsval)

definition getRandomColors :: "nat \<Rightarrow> nat \<Rightarrow> ColorPair" where
  "getRandomColors r1 r2 =
     (let color1 = js_index COLORS (Num (int r1));
          remaining = filter (\<lambda>c. Str c \<noteq> color1) COLORS;
          color2 = js_index remaining (Num (int r2))
      in ColorPair color1 color2)"

definition getRandomPattern :: "nat \<Rightarrow> jsval" where
  "getRandomPattern r = js_index PATTERNS (Num (int r))"

text \<open>
  The interface \<open>BlinkConfig\<close>. Its TypeScript field types are erased when the program runs:
  a field filled from an array read can hold \<open>undefined\<close>, and \<open>timeOffset\<close> can hold \<open>NaN\<close>.
\<close>

record BlinkConfig =
  color1 :: jsval
  color2 :: jsval
  pattern :: jsval
  timeOffset :: jsnum

section \<open>Text and numbers\<close>

text \<open>
  Strings are sequences of bytes (UTF-8). \<open>n.toString()\<close> of an integer is its decimal
  numeral, of \<open>NaN\<close> the text \<open>NaN\<close>.
\<close>

definition digit_char :: "nat \<Rightarrow> char" where
  "digit_char n = ''0123456789'' ! n"

fun nat_toString :: "nat \<Rightarrow> string" where
  "nat_toString n =
     (if n < 10 then [digit_char n] else nat_toString (n div 10) @ [digit_char (n mod 10)])"

definition int_toString :: "int \<Rightarrow> string" where
  "int_toString i = (if i < 0 then ''-'' @ nat_toString (nat (- i)) else nat_toString (nat i))"

fun jsnum_toString :: "jsnum \<Rightarrow> string" where
  "jsnum_toString NaN = ''NaN''"
| "jsnum_toString (Num i) = int_toString i"

text \<open>
  \<open>parseInt(s)\<close> with no radix: skip leading white space, read an optional sign, take radix 16
  after a \<open>0x\<close> or \<open>0X\<close> prefix and radix 10 otherwise, and read the longest run of digits;
  \<open>NaN\<close> when that run is empty. The white space of JavaScript is listed in its UTF-8 form.
\<close>

definition whitespace :: "string list" where
  "whitespace =
    [ [CHR 0x09], [CHR 0x0A], [CHR 0x0B], [CHR 0x0C], [CHR 0x0D], [CHR 0x20],
     [CHR 0xC2, CHR 0xA0],
     [CHR 0xE1, CHR 0x9A, CHR 0x80],
     [CHR 0xE2, CHR 0x80, CHR 0x80], [CHR 0xE2, CHR 0x80, CHR 0x81],
     [CHR 0xE2, CHR 0x80, CHR 0x82], [CHR 0xE2, CHR 0x80, CHR 0x83],
     [CHR 0xE2, CHR 0x80, CHR 0x84], [CHR 0xE2, CHR 0x80, CHR 0x85],
     [CHR 0xE2, CHR 0x80, CHR 0x86], [CHR 0xE2, CHR 0x80, CHR 0x87],
     [CHR 0xE2, CHR 0x80, CHR 0x88], [CHR 0xE2, CHR 0x80, CHR 0x89],
     [CHR 0xE2, CHR 0x80, CHR 0x8A],
     [CHR 0xE2, CHR 0x80, CHR 0xA8], [CHR 0xE2, CHR 0x80, CHR 0xA9],
     [CHR 0xE2, CHR 0x80, CHR 0xAF],
     [CHR 0xE2, CHR 0x81, CHR 0x9F],
     [CHR 0xE3, CHR 0x80, CHR 0x80],
     [CHR 0xEF, CHR 0xBB, CHR 0xBF]]"

definition starts_with :: "string \<Rightarrow> string \<Rightarrow> bool" where
  "starts_with p s = (take (length p) s = p)"

definition ws_length :: "string \<Rightarrow> nat" where
  "ws_length s = (case find (\<lambda>p. starts_with p s) whitespace of None \<Rightarrow> 0 | Some p \<Rightarrow> length p)"

fun strip_ws :: "string \<Rightarrow> string" where
  "strip_ws [] = []"
| "strip_ws (c # s) =
     (if ws_length (c # s) = 0 then c # s else strip_ws (drop (ws_length (c # s) - 1) s))"

definition digit_value :: "char \<Rightarrow> nat" where
  "digit_value c =
     (let n = of_char c :: nat
      in if 48 \<le> n \<and> n \<le> 57 then n - 48
         else if 97 \<le> n \<and> n \<le> 122 then n - 87
         else if 65 \<le> n \<and> n \<le> 90 then n - 55
         else 36)"

definition parse_digits :: "nat \<Rightarrow> string \<Rightarrow> jsnum" where
  "parse_digits radix s =
     (let ds = takeWhile (\<lambda>c. digit_value c < radix) s
      in if ds = [] then NaN
         else Num (int (foldl (\<lambda>acc c. acc * radix + digit_value c) 0 ds)))"

fun jsnum_negate :: "jsnum \<Rightarrow> jsnum" where
  "jsnum_negate NaN = NaN"
| "jsnum_negate (Num i) = Num (- i)"

definition parse_unsigned :: "string \<Rightarrow> jsnum" where
  "parse_unsigned s =
     (if starts_with ''0x'' s \<or> starts_with ''0X'' s then parse_digits 16 (drop 2 s)
      else parse_digits 10 s)"

definition parseInt :: "string \<Rightarrow> jsnum" where
  "parseInt str =
     (let s = strip_ws str
      in if starts_with ''-'' s then jsnum_negate (parse_unsigned (drop 1 s))
         else if starts_with ''+'' s then parse_unsigned (drop 1 s)
         else parse_unsigned s)"

section \<open>The query string: \<open>URLSearchParams\<close>\<close>

text \<open>
  The browser's \<open>URLSearchParams\<close> is an ordered list of name/value pairs. Built from a
  string it drops one leading \<open>?\<close>, splits at \<open>&\<close>, skips empty pieces, splits each piece
  at its first \<open>=\<close>, turns \<open>+\<close> into a space and decodes \<open>%XX\<close> escapes. Its
  \<open>toString()\<close> writes \<open>name=value\<close> joined by \<open>&\<close>, escaping every byte other than
  letters, digits and \<open>* - . _\<close>.
\<close>

type_synonym URLSearchParams = "(string \<times> string) list"

fun split_on :: "char \<Rightarrow> string \<Rightarrow> string list" where
  "split_on sep [] = [] # []"
| "split_on sep (c # s) =
     (if c = sep then [] # split_on sep s
      else (case split_on sep s of [] \<Rightarrow> [c] # [] | p # ps \<Rightarrow> (c # p) # ps))"

definition plus_to_space :: "string \<Rightarrow> string" where
  "plus_to_space s = map (\<lambda>c. if c = CHR ''+'' then CHR '' '' else c) s"

fun percent_decode :: "string \<Rightarrow> string" where
  "percent_decode (c # h1 # h2 # s) =
     (if c = CHR ''%'' \<and> digit_value h1 < 16 \<and> digit_value h2 < 16
      then char_of (16 * digit_value h1 + digit_value h2) # percent_decode s
      else c # percent_decode (h1 # h2 # s))"
| "percent_decode s = s"

definition parse_pair :: "string \<Rightarrow> string \<times> string" where
  "parse_pair piece =
     (let name = takeWhile (\<lambda>c. c \<noteq> CHR ''='') piece;
          val = drop 1 (dropWhile (\<lambda>c. c \<noteq> CHR ''='') piece)
      in (percent_decode (plus_to_space name), percent_decode (plus_to_space val)))"

definition new_URLSearchParams :: "string \<Rightarrow> URLSearchParams" where
  "new_URLSearchParams init =
     (let query = (if starts_with ''?'' init then drop 1 init else init)
      in map parse_pair (filter (\<lambda>piece. piece \<noteq> []) (split_on (CHR ''&'') query)))"

definition params_has :: "URLSearchParams \<Rightarrow> string \<Rightarrow> bool" where
  "params_has params name = (name \<in> set (map fst params))"

definition params_get :: "URLSearchParams \<Rightarrow> string \<Rightarrow> string option" where
  "params_get params name = map_of params name"

definition hex_char :: "nat \<Rightarrow> char" where
  "hex_char n = ''0123456789ABCDEF'' ! n"

definition urlencode_byte :: "char \<Rightarrow> string" where
  "urlencode_byte c =
     (let n = of_char c :: nat
      in if (48 \<le> n \<and> n \<le> 57) \<or> (65 \<le> n \<and> n \<le> 90) \<or> (97 \<le> n \<and> n \<le> 122)
            \<or> c \<in> set ''*-._'' then [c]
         else if c = CHR '' '' then ''+''
         else [CHR ''%'', hex_char (n div 16), hex_char (n mod 16)])"

definition urlencode :: "string \<Rightarrow> string" where
  "urlencode s = concat (map urlencode_byte s)"

fun join_with :: "string \<Rightarrow> string list \<Rightarrow> string" where
  "join_with sep [] = []"
| "join_with sep [p] = p"
| "join_with sep (p # q # ps) = p @ sep @ join_with sep (q # ps)"

definition params_toString :: "URLSearchParams \<Rightarrow> string" where
  "params_toString params =
     join_with ''&'' (map (\<lambda>(name, val). urlencode name @ ''='' @ urlencode val) params)"

section \<open>The codec: \<open>generateShareUrl\<close> and \<open>decodeUrl\<close>\<close>

text \<open>
  \<^verbatim>\<open>
  function generateShareUrl(): string | undefined {
      if (!blinkConfig) return;
      const params = new URLSearchParams({
          c1: COLORS.indexOf(blinkConfig.color1).toString(),
          c2: COLORS.indexOf(blinkConfig.color2).toString(),
          p: PATTERNS.indexOf(blinkConfig.pattern).toString(),
          t: blinkConfig.timeOffset.toString()
      });
      return `${window.location.origin}${window.location.pathname}?${params.toString()}`;
  }
  \<close>
  The global \<open>blinkConfig\<close> and the two parts of \<open>window.location\<close> are parameters;
  \<open>None\<close> is \<open>undefined\<close>.
\<close>

definition share_params :: "BlinkConfig \<Rightarrow> URLSearchParams" where
  "share_params blinkConfig =
     [(''c1'', int_toString (indexOf COLORS (color1 blinkConfig))),
      (''c2'', int_toString (indexOf COLORS (color2 blinkConfig))),
      (''p'', int_toString (indexOf PATTERNS (pattern blinkConfig))),
      (''t'', jsnum_toString (timeOffset blinkConfig))]"

definition generateShareUrl :: "BlinkConfig option \<Rightarrow> string \<Rightarrow> string \<Rightarrow> string option" where
  "generateShareUrl blinkConfig origin pathname =
     (case blinkConfig of
        None \<Rightarrow> None
      | Some c \<Rightarrow> Some (origin @ pathname @ ''?'' @ params_toString (share_params c)))"

text \<open>
  \<^verbatim>\<open>
  function decodeUrl(): BlinkConfig | null {
      const params = new URLSearchParams(window.location.search);
      if (!params.has('c1') || !params.has('c2') || !params.has('p') || !params.has('t')) {
          return null;
      }
      const color1Index = parseInt(params.get('c1')!);
      const color2Index = parseInt(params.get('c2')!);
      const patternIndex = parseInt(params.get('p')!);
      const timeOffset = parseInt(params.get('t')!);
      if (color1Index < 0 || color1Index >= COLORS.length ||
          color2Index < 0 || color2Index >= COLORS.length ||
          patternIndex < 0 || patternIndex >= PATTERNS.length ||
          timeOffset < 0 || timeOffset > 9) {
          return null;
      }
      return { color1: COLORS[color1Index], color2: COLORS[color2Index],
               pattern: PATTERNS[patternIndex], timeOffset: timeOffset };
  }
  \<close>
  \<open>window.location.search\<close> is the parameter \<open>search\<close>; \<open>None\<close> is \<open>null\<close>. \<open>parseInt\<close>
  of a missing value (\<open>null\<close>) reads the text \<open>null\<close>.
\<close>

definition parseInt_arg :: "string option \<Rightarrow> jsnum" where
  "parseInt_arg v = (case v of None \<Rightarrow> parseInt ''null'' | Some s \<Rightarrow> parseInt s)"

definition decodeUrl :: "string \<Rightarrow> BlinkConfig option" where
  "decodeUrl search =
     (let params = new_URLSearchParams search
      in if \<not> params_has params ''c1'' \<or> \<not> params_has params ''c2''
            \<or> \<not> params_has params ''p'' \<or> \<not> params_has params ''t''
         then None
         else
           (let color1Index = parseInt_arg (params_get params ''c1'');
                color2Index = parseInt_arg (params_get params ''c2'');
                patternIndex = parseInt_arg (params_get params ''p'');
                timeOffset = parseInt_arg (params_get params ''t'')
            in if js_lt color1Index (Num 0) \<or> js_ge color1Index (Num (int (length COLORS)))
                  \<or> js_lt color2Index (Num 0) \<or> js_ge color2Index (Num (int (length COLORS)))
                  \<or> js_lt patternIndex (Num 0) \<or> js_ge patternIndex (Num (int (length PATTERNS)))
                  \<or> js_lt timeOffset (Num 0) \<or> js_gt timeOffset (Num 9)
               then None
               else Some \<lparr>color1 = js_index COLORS color1Index,
                          color2 = js_index COLORS color2Index,
                          pattern = js_index PATTERNS patternIndex,
                          timeOffset = timeOffset\<rparr>))"

section \<open>Session state and the page\<close>

datatype State = WELCOME | COUNTDOWN | RUNNING

text \<open>
  The parts of the page the program reads and writes: the theme's CSS variables
  (\<open>getComputedStyle(document.documentElement).getPropertyValue\<close>), the background colour
  of \<open>body\<close>, the colour of the \<open>phoneHolder\<close> element, whether each control carries the
  class \<open>hidden\<close>, and the countdown text.
\<close>

record page =
  css :: "string \<Rightarrow> string"
  body_backgroundColor :: string
  phoneHolder_color :: string
  playButton_hidden :: bool
  cancelButton_hidden :: bool
  countdownText_hidden :: bool
  countdownText_content :: string
  instructions_hidden :: bool

text \<open>The module-level variables, the live \<open>setInterval\<close> timers and the page.\<close>

record world =
  currentState :: State
  isBackgroundFlashing :: bool
  shouldPauseBackground :: bool
  countdownIntervalId :: "nat option"
  currentAnimationId :: int
  intervals :: "nat list"
  document :: page

definition initial_world :: "page \<Rightarrow> world" where
  "initial_world p =
     \<lparr>currentState = WELCOME,
      isBackgroundFlashing = False,
      shouldPauseBackground = True,
      countdownIntervalId = None,
      currentAnimationId = 0,
      intervals = [],
      document = p\<rparr>"

text \<open>
  \<^verbatim>\<open>
  function updateUI(): void {
      const body = document.body;
      const defaultColor = getComputedStyle(document.documentElement)
                               .getPropertyValue('--color-base-200');
      if (countdownIntervalId) {
          clearInterval(countdownIntervalId);
          countdownIntervalId = null;
      }
      switch (currentState) {
          case State.WELCOME:
              playButton.classList.remove('hidden');
              cancelButton.classList.add('hidden');
              countdownText.innerHTML = "&nbsp;"
              countdownText.classList.remove('hidden');
              instructions.classList.remove('hidden');
              shouldPauseBackground = true;
              isBackgroundFlashing = false;
              body.style.backgroundColor = defaultColor;
              break;
          case State.COUNTDOWN:
              playButton.classList.add('hidden');
              cancelButton.classList.remove('hidden');
              countdownText.classList.remove('hidden');
              countdownText.textContent = 'Starting in 3';
              instructions.classList.add('hidden');
              shouldPauseBackground = false;
              break;
          case State.RUNNING:
              playButton.classList.add('hidden');
              cancelButton.classList.remove('hidden');
              instructions.classList.add('hidden');
              countdownText.classList.add('hidden');
              shouldPauseBackground = false;
              break;
      }
  }

  function setState(newState: State): void {
      const oldState = currentState;
      currentState = newState;
      updateUI();
  }
  \<close>
  The test \<open>if (countdownIntervalId)\<close> is false for \<open>null\<close> and for the number \<open>0\<close>.
\<close>

definition clear_countdown :: "world \<Rightarrow> world" where
  "clear_countdown w =
     (case countdownIntervalId w of
        None \<Rightarrow> w
      | Some n \<Rightarrow>
          if n = 0 then w
          else w\<lparr>intervals := removeAll n (intervals w), countdownIntervalId := None\<rparr>)"

definition updateUI :: "world \<Rightarrow> world" where
  "updateUI w0 =
     (let defaultColor = css (document w0) ''--color-base-200'';
          w = clear_countdown w0;
          d = document w
      in case currentState w of
           WELCOME \<Rightarrow>
             w\<lparr>shouldPauseBackground := True,
               isBackgroundFlashing := False,
               document := d\<lparr>playButton_hidden := False,
                              cancelButton_hidden := True,
                              countdownText_content := ''&nbsp;'',
                              countdownText_hidden := False,
                              instructions_hidden := False,
                              body_backgroundColor := defaultColor\<rparr>\<rparr>
         | COUNTDOWN \<Rightarrow>
             w\<lparr>shouldPauseBackground := False,
               document := d\<lparr>playButton_hidden := True,
                              cancelButton_hidden := False,
                              countdownText_hidden := False,
                              countdownText_content := ''Starting in 3'',
                              instructions_hidden := True\<rparr>\<rparr>
         | RUNNING \<Rightarrow>
             w\<lparr>shouldPauseBackground := False,
               document := d\<lparr>playButton_hidden := True,
                              cancelButton_hidden := False,
                              instructions_hidden := True,
                              countdownText_hidden := True\<rparr>\<rparr>)"

definition setState :: "State \<Rightarrow> world \<Rightarrow> world" where
  "setState newState w = updateUI (w\<lparr>currentState := newState\<rparr>)"

section \<open>The animation loop: \<open>runPattern\<close>\<close>

text \<open>
  \<open>animateBackgroundColor(config, startTime, animationId)\<close> reads three colours from the
  theme, looks the \<open>phoneHolder\<close> element up and starts the asynchronous function
  \<open>runPattern\<close>, which closes over all of them. The record \<open>animation\<close> is that closure.

  \<open>runPattern\<close> runs until it returns or reaches an \<open>await\<close> on a timer. The model runs
  it the same way: each function below executes one synchronous stretch on the shared
  variables and the page, and says how the stretch ended: the invocation returned, it threw,
  it never ends (\<open>getNextStartTime\<close> does not return), or it waits on a timer of the given
  delay at the given program point. One stretch takes no time: every \<open>Date.now()\<close> in it
  reads the same \<open>now\<close>.
  \<^item> \<open>runPattern\<close> is the entry of the function;
  \<^item> \<open>runPattern_after_start_wait\<close> is the code after the wait for \<open>startTime\<close>;
  \<^item> \<open>runPattern_loop\<close> is the head of the \<open>for\<close> loop with index \<open>i\<close>;
  \<^item> \<open>runPattern_complete\<close> is the code after the loop.
\<close>

text \<open>The two members of the enum \<open>Duration\<close> that the loop uses, in milliseconds.\<close>

definition DOT :: int where
  "DOT = 250"

definition DASH :: int where
  "DASH = 750"

record animation =
  config :: BlinkConfig
  startTime :: int
  animationId :: int
  phoneHolder_found :: bool
  color1Value :: string
  color2Value :: string
  defaultColor :: string

fun css_name :: "jsval \<Rightarrow> string" where
  "css_name Undefined = ''undefined''"
| "css_name (Str s) = s"

definition animation_closure :: "BlinkConfig \<Rightarrow> int \<Rightarrow> int \<Rightarrow> bool \<Rightarrow> world \<Rightarrow> animation" where
  "animation_closure cfg start aid found w =
     \<lparr>config = cfg,
      startTime = start,
      animationId = aid,
      phoneHolder_found = found,
      color1Value = css (document w) (css_name (color1 cfg)),
      color2Value = css (document w) (css_name (color2 cfg)),
      defaultColor = css (document w) ''--color-base-200''\<rparr>"

text \<open>
  The program points at which \<open>runPattern\<close> waits: the 100 ms poll while paused (after it
  \<open>runPattern()\<close> is called again), the wait for \<open>startTime\<close>, the wait of one pattern
  step (with the loop index and \<open>currentColor\<close>), and the wait for the next cycle.
\<close>

datatype wait_point = PausePoll | StartWait | StepWait nat string | NextCycleWait

datatype outcome = Returned | Threw | Hang | Await int wait_point

definition paint :: "string \<Rightarrow> world \<Rightarrow> world" where
  "paint colour w = w\<lparr>document := (document w)\<lparr>body_backgroundColor := colour\<rparr>\<rparr>"

definition reset_background :: "animation \<Rightarrow> world \<Rightarrow> world" where
  "reset_background env w = (paint (defaultColor env) w)\<lparr>isBackgroundFlashing := False\<rparr>"

text \<open>
  \<^verbatim>\<open>
  async function runPattern(): Promise<void> {
      if (animationId !== currentAnimationId) return;
      if (shouldPauseBackground) {
          await new Promise(resolve => setTimeout(resolve, 100));
          runPattern();
          return;
      }
      const now = Date.now();
      const waitTime = startTime - now;
      if (waitTime > 0) {
          await new Promise(resolve => setTimeout(resolve, waitTime));
      }
      if (animationId !== currentAnimationId || shouldPauseBackground) {
          if (shouldPauseBackground) {
              await new Promise(resolve => setTimeout(resolve, 100));
              runPattern();
          }
          return;
      }
      isBackgroundFlashing = true;
      if (phoneHolder) phoneHolder.style.color = 'white';
      setState(State.RUNNING);
      let currentColor = color1Value;
      for (let i = 0; i < config.pattern.length; i++) {
          if (animationId !== currentAnimationId) {
              body.style.backgroundColor = defaultColor;
              isBackgroundFlashing = false;
              return;
          }
          if (shouldPauseBackground) {
              body.style.backgroundColor = defaultColor;
              isBackgroundFlashing = false;
              await new Promise(resolve => setTimeout(resolve, 100));
              runPattern();
              return;
          }
          const char = config.pattern[i];
          body.style.backgroundColor = currentColor;
          const duration = char === '.' ? Duration.DOT : char === '-' ? Duration.DASH : 0;
          await new Promise(resolve => setTimeout(resolve, duration));
          currentColor = currentColor === color1Value ? color2Value : color1Value;
      }
      body.style.backgroundColor = defaultColor;
      isBackgroundFlashing = false;
      const nextStartTime = getNextStartTime(config.timeOffset);
      const delayUntilNext = nextStartTime - Date.now();
      if (delayUntilNext > 0) {
          await new Promise(resolve => setTimeout(resolve, delayUntilNext));
      }
      runPattern();
  }
  \<close>
  Reading \<open>config.pattern.length\<close> throws when \<open>config.pattern\<close> is \<open>undefined\<close>. The
  recursion of the model is the call \<open>runPattern()\<close> after a next start time that is not in
  the future; it ends because \<open>getNextStartTime\<close> only returns instants after \<open>now\<close>.
\<close>

function runPattern :: "animation \<Rightarrow> int \<Rightarrow> world \<Rightarrow> world \<times> outcome"
  and runPattern_after_start_wait :: "animation \<Rightarrow> int \<Rightarrow> world \<Rightarrow> world \<times> outcome"
  and runPattern_loop :: "animation \<Rightarrow> int \<Rightarrow> nat \<Rightarrow> string \<Rightarrow> world \<Rightarrow> world \<times> outcome"
  and runPattern_complete :: "animation \<Rightarrow> int \<Rightarrow> world \<Rightarrow> world \<times> outcome"
where
  "runPattern env now w =
     (if animationId env \<noteq> currentAnimationId w then (w, Returned)
      else if shouldPauseBackground w then (w, Await 100 PausePoll)
      else
        (let waitTime = startTime env - now
         in if waitTime > 0 then (w, Await waitTime StartWait)
            else runPattern_after_start_wait env now w))"
| "runPattern_after_start_wait env now w =
     (if animationId env \<noteq> currentAnimationId w \<or> shouldPauseBackground w
      then (if shouldPauseBackground w then (w, Await 100 PausePoll) else (w, Returned))
      else
        (let w1 = w\<lparr>isBackgroundFlashing := True\<rparr>;
             w2 = (if phoneHolder_found env
                   then w1\<lparr>document := (document w1)\<lparr>phoneHolder_color := ''white''\<rparr>\<rparr>
                   else w1);
             w3 = setState RUNNING w2
         in runPattern_loop env now 0 (color1Value env) w3))"
| "runPattern_loop env now i currentColor w =
     (case pattern (config env) of
        Undefined \<Rightarrow> (w, Threw)
      | Str pat \<Rightarrow>
          if i < length pat then
            (if animationId env \<noteq> currentAnimationId w then (reset_background env w, Returned)
             else if shouldPauseBackground w then (reset_background env w, Await 100 PausePoll)
             else
               (let char = pat ! i;
                    w' = paint currentColor w;
                    duration = (if char = CHR ''.'' then DOT else if char = CHR ''-'' then DASH else 0)
                in (w', Await duration (StepWait i currentColor))))
          else runPattern_complete env now w)"
| "runPattern_complete env now w =
     (let w' = reset_background env w
      in case getNextStartTime (timeOffset (config env)) now of
           None \<Rightarrow> (w', Hang)
         | Some nextStartTime \<Rightarrow>
             (let delayUntilNext = nextStartTime - now
              in if delayUntilNext > 0 then (w', Await delayUntilNext NextCycleWait)
                 else runPattern env now w'))"
  by pat_completeness auto
termination
proof (relation "measure (\<lambda>x. case x of Inl (Inl _) \<Rightarrow> 3 | Inl (Inr _) \<Rightarrow> 2 | Inr (Inl _) \<Rightarrow> 1 | Inr (Inr _) \<Rightarrow> (0::nat))")
  fix env :: animation and now :: int and w w' :: world and nextStartTime delayUntilNext :: int
  assume g: "getNextStartTime (timeOffset (config env)) now = Some nextStartTime"
    and d: "delayUntilNext = nextStartTime - now" "\<not> 0 < delayUntilNext"
  have step: "c * 1000 \<le> r"
    if ih: "\<And>a b c r. loop a b c = Some r \<Longrightarrow> c * 1000 \<le> r"
      and eq: "(if candidate_matches a b c then Some (c * 1000) else loop a b (c + 1)) = Some r"
    for loop :: "jsnum \<Rightarrow> jsnum \<Rightarrow> int \<Rightarrow> int option" and a b c r
  proof (cases "candidate_matches a b c")
    case True
    with eq show ?thesis by simp
  next
    case False
    with eq have "loop a b (c + 1) = Some r" by simp
    then have "(c + 1) * 1000 \<le> r" by (rule ih)
    then show ?thesis by simp
  qed
  have lb: "c * 1000 \<le> r" if "candidate_loop d1 d2 c = Some r" for d1 d2 c r
    using step that by (rule candidate_loop.raw_induct[where P = "\<lambda>_ _ c r. c * 1000 \<le> r"])
  from g have "candidate_loop (jsnum_rem (timeOffset (config env)) 10)
      (jsnum_rem (jsnum_add (timeOffset (config env)) 5) 10) (now div 1000 + 1) = Some nextStartTime"
    by (simp add: getNextStartTime_def)
  then have "(now div 1000 + 1) * 1000 \<le> nextStartTime"
    by (rule lb)
  moreover have "now < (now div 1000 + 1) * 1000"
  proof -
    have "now = now div 1000 * 1000 + now mod 1000" by simp
    moreover have "now mod 1000 < 1000" by simp
    ultimately show ?thesis by (simp add: algebra_simps)
  qed
  ultimately have "now < nextStartTime" by simp
  with d show "(Inl (Inl (env, now, w')), Inr (Inr (env, now, w)))
       \<in> measure (\<lambda>x. case x of Inl (Inl _) \<Rightarrow> 3 | Inl (Inr _) \<Rightarrow> 2 | Inr (Inl _) \<Rightarrow> 1 | Inr (Inr _) \<Rightarrow> (0::nat))"
    by simp
qed simp_all

text \<open>
  \<open>animateBackgroundColor\<close> itself: build the closure and run \<open>runPattern()\<close> up to its first
  wait. \<open>found\<close> says whether \<open>document.getElementById('phoneHolder')\<close> found the element.
\<close>

definition animateBackgroundColor ::
    "BlinkConfig \<Rightarrow> int \<Rightarrow> int \<Rightarrow> bool \<Rightarrow> int \<Rightarrow> world \<Rightarrow> world \<times> outcome" where
  "animateBackgroundColor cfg start aid found now w =
     runPattern (animation_closure cfg start aid found w) now w"

text \<open>The code after the wait of step \<open>i\<close>: toggle \<open>currentColor\<close>, increment \<open>i\<close>, loop.\<close>

definition runPattern_after_step ::
    "animation \<Rightarrow> int \<Rightarrow> nat \<Rightarrow> string \<Rightarrow> world \<Rightarrow> world \<times> outcome" where
  "runPattern_after_step env now i currentColor w =
     (let currentColor' = (if currentColor = color1Value env then color2Value env
                           else color1Value env)
      in runPattern_loop env now (i + 1) currentColor' w)"

text \<open>What the invocation does when the timer it waits on fires at time \<open>now\<close>.\<close>

fun resume :: "animation \<Rightarrow> int \<Rightarrow> wait_point \<Rightarrow> world \<Rightarrow> world \<times> outcome" where
  "resume env now PausePoll w = runPattern env now w"
| "resume env now StartWait w = runPattern_after_start_wait env now w"
| "resume env now (StepWait i currentColor) w = runPattern_after_step env now i currentColor w"
| "resume env now NextCycleWait w = runPattern env now w"

text \<open>
  An uninterrupted run: every timer fires exactly when it is due and nothing else touches
  the shared variables or the page in between. The result lists, for each of the first \<open>n\<close>
  resumptions, its instant and the background colour of \<open>body\<close> it leaves.
\<close>

fun uninterrupted ::
    "nat \<Rightarrow> animation \<Rightarrow> int \<Rightarrow> wait_point \<Rightarrow> world \<Rightarrow> (int \<times> string) list" where
  "uninterrupted 0 env t pt w = []"
| "uninterrupted (Suc n) env t pt w =
     (case resume env t pt w of
        (w', Await delay pt') \<Rightarrow>
          (t, body_backgroundColor (document w')) # uninterrupted n env (t + delay) pt' w'
      | (w', _) \<Rightarrow> [(t, body_backgroundColor (document w'))])"

text \<open>The background colour visible at instant \<open>t\<close>: the one left by the last resumption up to \<open>t\<close>.\<close>

fun background_at :: "(int \<times> string) list \<Rightarrow> int \<Rightarrow> string option" where
  "background_at [] t = None"
| "background_at ((t0, colour) # rest) t =
     (if t < t0 then None
      else (case background_at rest t of None \<Rightarrow> Some colour | Some later \<Rightarrow> Some later))"

section \<open>Notions of the specification\<close>

text \<open>
  A valid \<open>BlinkConfig\<close>: two different colours of the \<open>COLORS\<close> table, a pattern of the
  \<open>PATTERNS\<close> table and a time offset in \<open>0..9\<close>.
\<close>

definition valid_config :: "BlinkConfig \<Rightarrow> bool" where
  "valid_config c =
     (color1 c \<in> Str ` set COLORS \<and> color2 c \<in> Str ` set COLORS \<and> color1 c \<noteq> color2 c
      \<and> pattern c \<in> Str ` set PATTERNS \<and> timeOffset c \<in> Num ` {0..9})"

definition is_digit :: "char \<Rightarrow> bool" where
  "is_digit c = (c \<in> set ''0123456789'')"

text \<open>
  The loop is live in a world when its generation is the current one and the pause flag is
  down.
\<close>

definition active :: "animation \<Rightarrow> world \<Rightarrow> bool" where
  "active env w = (animationId env = currentAnimationId w \<and> \<not> shouldPauseBackground w)"

section \<open>The click handlers\<close>

text \<open>
  \<open>handleCancelClick\<close> on the world (it also drops \<open>blinkConfig\<close> and restores the
  instruction text, which are not part of the world), and the two statements of
  \<open>handlePlayClick\<close> that start a generation: \<open>setState(State.COUNTDOWN); currentAnimationId++\<close>.
\<close>

definition handleCancelClick :: "world \<Rightarrow> world" where
  "handleCancelClick w = setState WELCOME w"

definition start_countdown :: "world \<Rightarrow> world" where
  "start_countdown w = (setState COUNTDOWN w)\<lparr>currentAnimationId := currentAnimationId w + 1\<rparr>"

text \<open>
  The configuration \<open>handlePlayClick\<close> builds on the first play:
  \<^verbatim>\<open>
  blinkConfig = {
      color1: getRandomColors().color1,
      color2: getRandomColors().color2,
      pattern: getRandomPattern(),
      timeOffset: Math.floor(Math.random() * 5)
  };
  \<close>
  \<open>getRandomColors\<close> is called twice; \<open>r1 r2\<close> are the draws of the first call, \<open>r3 r4\<close> of
  the second, \<open>r5\<close> the draw of \<open>getRandomPattern\<close> and \<open>r6\<close> the time offset.
\<close>

definition first_play_config :: "nat \<Rightarrow> nat \<Rightarrow> nat \<Rightarrow> nat \<Rightarrow> nat \<Rightarrow> nat \<Rightarrow> BlinkConfig" where
  "first_play_config r1 r2 r3 r4 r5 r6 =
     \<lparr>color1 = ColorPair.color1 (getRandomColors r1 r2),
      color2 = ColorPair.color2 (getRandomColors r3 r4),
      pattern = getRandomPattern r5,
      timeOffset = Num (int r6)\<rparr>"

section \<open>Concrete inputs\<close>

text \<open>
  A page whose theme has three distinct colours, and the pattern \<open>..-\<close> with start time
  \<open>0\<close> in generation \<open>1\<close>, in the world where generation \<open>1\<close> is current and the countdown
  is on.
\<close>

definition example_page :: page where
  "example_page =
     \<lparr>css = (\<lambda>name. if name = ''--color-base-200'' then ''grey''
                     else if name = ''--color-info'' then ''blue''
                     else if name = ''--color-error'' then ''red''
                     else []),
      body_backgroundColor = ''grey'',
      phoneHolder_color = ''black'',
      playButton_hidden = False,
      cancelButton_hidden = True,
      countdownText_hidden = False,
      countdownText_content = ''&nbsp;'',
      instructions_hidden = False\<rparr>"

definition example_world :: world where
  "example_world = start_countdown (initial_world example_page)"

definition example_config :: BlinkConfig where
  "example_config =
     \<lparr>color1 = Str ''--color-error'', color2 = Str ''--color-info'',
      pattern = Str ''..-'', timeOffset = Num 0\<rparr>"

definition example_animation :: animation where
  "example_animation = animation_closure example_config 0 1 True example_world"

text \<open>
  A cancelled generation that meets its successor. Generation \<open>1\<close> plays the first pattern of
  the table from instant \<open>0\<close>: red over \<open>[0, 250)\<close>, blue over \<open>[250, 500)\<close>, and red from
  \<open>500\<close> for the dash, whose timer is due at \<open>1250\<close>. The user cancels during the dash and
  plays again; generation \<open>2\<close> has time offset \<open>1\<close>, so it starts at \<open>1000\<close> and paints
  its first colour, blue, for a dash. \<open>superseded_world\<close> is the world at that point, in which
  the timer of generation \<open>1\<close> is still pending.
\<close>

definition first_config :: BlinkConfig where
  "first_config =
     \<lparr>color1 = Str ''--color-error'', color2 = Str ''--color-info'',
      pattern = Str ''..-..-.-..'', timeOffset = Num 0\<rparr>"

definition first_animation :: animation where
  "first_animation = animation_closure first_config 0 1 True example_world"

definition world_in_dash :: world where
  "world_in_dash =
     fst (resume first_animation 500 (StepWait (Suc 0) ''blue'')
       (fst (resume first_animation 250 (StepWait 0 ''red'')
         (fst (resume first_animation 0 StartWait example_world)))))"

definition replayed_world :: world where
  "replayed_world = start_countdown (handleCancelClick world_in_dash)"

definition second_config :: BlinkConfig where
  "second_config =
     \<lparr>color1 = Str ''--color-info'', color2 = Str ''--color-error'',
      pattern = Str ''-----.'', timeOffset = Num 1\<rparr>"

definition second_animation :: animation where
  "second_animation = animation_closure second_config 1000 2 True replayed_world"

definition superseded_world :: world where
  "superseded_world = fst (resume second_animation 1000 StartWait replayed_world)"

section \<open>Properties of the schedule\<close>

lemma candidate_loop_first_match:
  "(\<forall>j<k. \<not> candidate_matches d1 d2 (c + int j)) \<Longrightarrow> candidate_matches d1 d2 (c + int k)
   \<Longrightarrow> candidate_loop d1 d2 c = Some ((c + int k) * 1000)"
proof (induction k arbitrary: c)
  case 0
  then show ?case by (simp add: candidate_loop.simps)
next
  case (Suc k)
  from Suc.prems(1) have nm: "\<not> candidate_matches d1 d2 c" by (metis of_nat_0 add.right_neutral zero_less_Suc)
  have "\<forall>j<k. \<not> candidate_matches d1 d2 ((c + 1) + int j)"
  proof (intro allI impI)
    fix j assume "j < k"
    then have "Suc j < Suc k" by simp
    with Suc.prems(1) have "\<not> candidate_matches d1 d2 (c + int (Suc j))" by blast
    then show "\<not> candidate_matches d1 d2 ((c + 1) + int j)" by (simp add: algebra_simps)
  qed
  moreover from Suc.prems(2) have "candidate_matches d1 d2 ((c + 1) + int k)"
    by (simp add: algebra_simps)
  ultimately have "candidate_loop d1 d2 (c + 1) = Some (((c + 1) + int k) * 1000)"
    by (rule Suc.IH)
  with nm show ?case
    by (subst candidate_loop.simps) (simp add: algebra_simps)
qed

lemma candidate_loop_bounded_first_match:
  "(\<forall>j<k. \<not> candidate_matches d1 d2 (c + int j)) \<Longrightarrow> candidate_matches d1 d2 (c + int k)
   \<Longrightarrow> k < n \<Longrightarrow> candidate_loop_bounded n d1 d2 c = Some ((c + int k) * 1000)"
proof (induction n d1 d2 c arbitrary: k rule: candidate_loop_bounded.induct)
  case (1 d1 d2 c)
  then show ?case by simp
next
  case (2 n d1 d2 c)
  show ?case
  proof (cases k)
    case 0
    with 2 show ?thesis by simp
  next
    case (Suc k')
    from "2.prems"(1) Suc have nm: "\<not> candidate_matches d1 d2 c"
      by (metis of_nat_0 add.right_neutral zero_less_Suc)
    have a: "\<forall>j<k'. \<not> candidate_matches d1 d2 ((c + 1) + int j)"
    proof (intro allI impI)
      fix j assume "j < k'"
      then have "Suc j < k" using Suc by simp
      with "2.prems"(1) have "\<not> candidate_matches d1 d2 (c + int (Suc j))" by blast
      then show "\<not> candidate_matches d1 d2 ((c + 1) + int j)" by (simp add: algebra_simps)
    qed
    have b: "candidate_matches d1 d2 ((c + 1) + int k')"
      using "2.prems"(2) Suc by (simp add: algebra_simps)
    have c: "k' < n" using "2.prems"(3) Suc by simp
    have "candidate_loop_bounded n d1 d2 (c + 1) = Some (((c + 1) + int k') * 1000)"
      using "2.IH"[OF nm a b c] .
    with nm Suc show ?thesis by (simp add: algebra_simps)
  qed
qed

lemma digit_cases:
  "0 \<le> (d::int) \<Longrightarrow> d \<le> 9 \<Longrightarrow>
   d = 0 \<or> d = 1 \<or> d = 2 \<or> d = 3 \<or> d = 4 \<or> d = 5 \<or> d = 6 \<or> d = 7 \<or> d = 8 \<or> d = 9"
  by arith

lemma same_mod5_ends:
  assumes "0 \<le> d" "d \<le> 9" "x mod 5 = d mod (5::int)"
  shows "x mod 10 = d \<or> x mod 10 = (d + 5) mod 10"
proof -
  define r where "r = x mod 10"
  have "0 \<le> r" "r \<le> 9" by (simp_all add: r_def) 
  then have rc: "r = 0 \<or> r = 1 \<or> r = 2 \<or> r = 3 \<or> r = 4 \<or> r = 5 \<or> r = 6 \<or> r = 7 \<or> r = 8 \<or> r = 9"
    by (rule digit_cases)
  have "r mod 5 = x mod 5" by (simp add: r_def mod_mod_cancel)
  with assms(3) have e: "r mod 5 = d mod 5" by simp
  from digit_cases[OF assms(1,2)] rc e have "r = d \<or> r = (d + 5) mod 10"
    by (elim disjE) simp_all
  then show ?thesis by (simp add: r_def)
qed

lemma neg_eq_nonneg:
  fixes m e :: int
  assumes "0 \<le> m" "0 \<le> e"
  shows "(- m = e) = (m = 0 \<and> e = 0)"
  using assms by auto

lemma matches_digit:
  assumes "0 \<le> d" "d \<le> 9"
  shows "candidate_matches (jsnum_rem (Num d) 10) (jsnum_rem (jsnum_add (Num d) 5) 10) c
     = (if 0 \<le> c then c mod 10 = d \<or> c mod 10 = (d + 5) mod 10
        else c mod 10 = 0 \<and> (d = 0 \<or> d = 5))"
proof -
  have d1: "js_rem d 10 = Num d"
    using assms by (simp add: js_rem_def sgn_if)
  have d2: "js_rem (d + 5) 10 = Num ((d + 5) mod 10)"
    using assms by (simp add: js_rem_def sgn_if)
  show ?thesis
  proof (cases "0 \<le> c")
    case True
    then have "js_rem c 10 = Num (c mod 10)"
      by (auto simp add: js_rem_def sgn_if)
    with True show ?thesis
      by (auto simp add: candidate_matches_def d1 d2)
  next
    case False
    then have r: "js_rem c 10 = Num (- ((- c) mod 10))"
      by (simp add: js_rem_def sgn_if)
    have z: "((- c) mod 10 = 0) = (c mod 10 = 0)"
      by (simp add: mod_eq_0_iff_dvd)
    have e5: "((d + 5) mod 10 = 0) = (d = 5)"
      using digit_cases[OF assms] by auto
    have "(- ((- c) mod 10) = d) = ((- c) mod 10 = 0 \<and> d = 0)"
      by (rule neg_eq_nonneg) (simp_all add: assms(1))
    then have 1: "(- ((- c) mod 10) = d) = (c mod 10 = 0 \<and> d = 0)"
      by (simp only: z)
    have "(- ((- c) mod 10) = (d + 5) mod 10) = ((- c) mod 10 = 0 \<and> (d + 5) mod 10 = 0)"
      by (rule neg_eq_nonneg) simp_all
    then have 2: "(- ((- c) mod 10) = (d + 5) mod 10) = (c mod 10 = 0 \<and> d = 5)"
      by (simp only: z e5)
    show ?thesis
      unfolding candidate_matches_def Let_def jsnum_rem.simps jsnum_add.simps d1 d2 r js_eq.simps
        jsnum.inject 1 2
      using False by auto
  qed
qed

lemma matches_ends_in:
  assumes "0 \<le> d" "d \<le> 9"
    and "candidate_matches (jsnum_rem (Num d) 10) (jsnum_rem (jsnum_add (Num d) 5) 10) c"
  shows "ends_in d c"
proof -
  from assms(3) have "if 0 \<le> c then c mod 10 = d \<or> c mod 10 = (d + 5) mod 10
        else c mod 10 = 0 \<and> (d = 0 \<or> d = 5)"
    unfolding matches_digit[OF assms(1,2)] .
  then show ?thesis
    unfolding ends_in_def last_decimal_digit_def using assms(1,2)
    by (auto split: if_splits simp: abs_if)
qed

lemma ends_in_matches:
  assumes "0 \<le> d" "d \<le> 9" "0 \<le> c" "ends_in d c"
  shows "candidate_matches (jsnum_rem (Num d) 10) (jsnum_rem (jsnum_add (Num d) 5) 10) c"
  unfolding matches_digit[OF assms(1,2)] using assms by (simp add: ends_in_def last_decimal_digit_def)


lemma match_ahead_nonneg:
  assumes "0 \<le> d" "d \<le> 9" "0 \<le> c"
  shows "\<exists>k\<le>4. candidate_matches (jsnum_rem (Num d) 10) (jsnum_rem (jsnum_add (Num d) 5) 10) (c + int k)"
proof -
  define m where "m = (d - c) mod 5"
  have m0: "0 \<le> m" unfolding m_def by (rule pos_mod_sign) simp
  have m5: "m < 5" unfolding m_def by (rule pos_mod_bound) simp
  have "(c + m) mod 5 = d mod 5"
    unfolding m_def by (simp add: mod_add_right_eq)
  then have mm: "(c + m) mod 10 = d \<or> (c + m) mod 10 = (d + 5) mod 10"
    by (rule same_mod5_ends[OF assms(1,2)])
  have i: "int (nat m) = m" using m0 by simp
  have k4: "nat m \<le> 4" using m5 m0 by simp
  have nn: "0 \<le> c + int (nat m)" using assms(3) m0 by simp
  have "candidate_matches (jsnum_rem (Num d) 10) (jsnum_rem (jsnum_add (Num d) 5) 10) (c + int (nat m))"
    unfolding matches_digit[OF assms(1,2)] using nn mm by (simp only: i if_True)
  with k4 show ?thesis by blast
qed

lemma match_ahead:
  assumes "0 \<le> d" "d \<le> 9"
  shows "\<exists>k. candidate_matches (jsnum_rem (Num d) 10) (jsnum_rem (jsnum_add (Num d) 5) 10) (c + int k)
             \<and> (0 \<le> c \<longrightarrow> k \<le> 4)"
proof (cases "0 \<le> c")
  case True
  from match_ahead_nonneg[OF assms True] show ?thesis by blast
next
  case False
  then have e: "c + int (nat (d - c)) = d" using assms(1) by simp
  have "candidate_matches (jsnum_rem (Num d) 10) (jsnum_rem (jsnum_add (Num d) 5) 10) (c + int (nat (d - c)))"
    unfolding e matches_digit[OF assms] using assms by simp
  with False show ?thesis by blast
qed

lemma first_match_ahead:
  assumes "0 \<le> d" "d \<le> 9"
  shows "\<exists>k. candidate_matches (jsnum_rem (Num d) 10) (jsnum_rem (jsnum_add (Num d) 5) 10) (c + int k)
             \<and> (\<forall>j<k. \<not> candidate_matches (jsnum_rem (Num d) 10) (jsnum_rem (jsnum_add (Num d) 5) 10) (c + int j))
             \<and> (0 \<le> c \<longrightarrow> k \<le> 4)"
proof -
  define M where "M = (\<lambda>k. candidate_matches (jsnum_rem (Num d) 10) (jsnum_rem (jsnum_add (Num d) 5) 10) (c + int k))"
  from match_ahead[OF assms, of c] obtain k0 where k0: "M k0" "0 \<le> c \<longrightarrow> k0 \<le> 4"
    unfolding M_def by blast
  define k where "k = (LEAST k. M k)"
  have 1: "M k" unfolding k_def using k0(1) by (rule LeastI)
  have 2: "\<forall>j<k. \<not> M j" unfolding k_def using not_less_Least by blast
  have "k \<le> k0" unfolding k_def using k0(1) by (rule Least_le)
  with k0(2) have 3: "0 \<le> c \<longrightarrow> k \<le> 4" by auto
  from 1 2 3 show ?thesis unfolding M_def by blast
qed

text \<open>What \<open>getNextStartTime\<close> returns for a digit: the first matching second from the next one on.\<close>

lemma getNextStartTime_first:
  assumes "0 \<le> d" "d \<le> 9"
  shows "\<exists>k. getNextStartTime (Num d) now = Some ((now div 1000 + 1 + int k) * 1000)
           \<and> (\<forall>n>k. candidate_loop_bounded n (jsnum_rem (Num d) 10) (jsnum_rem (jsnum_add (Num d) 5) 10) (now div 1000 + 1)
               = Some ((now div 1000 + 1 + int k) * 1000))
           \<and> candidate_matches (jsnum_rem (Num d) 10) (jsnum_rem (jsnum_add (Num d) 5) 10) (now div 1000 + 1 + int k)
           \<and> (\<forall>j<k. \<not> candidate_matches (jsnum_rem (Num d) 10) (jsnum_rem (jsnum_add (Num d) 5) 10) (now div 1000 + 1 + int j))
           \<and> (0 \<le> now \<longrightarrow> k \<le> 4)"
proof -
  from first_match_ahead[OF assms, of "now div 1000 + 1"] obtain k where
    k: "candidate_matches (jsnum_rem (Num d) 10) (jsnum_rem (jsnum_add (Num d) 5) 10) (now div 1000 + 1 + int k)"
       "\<forall>j<k. \<not> candidate_matches (jsnum_rem (Num d) 10) (jsnum_rem (jsnum_add (Num d) 5) 10) (now div 1000 + 1 + int j)"
       "0 \<le> now div 1000 + 1 \<longrightarrow> k \<le> 4"
    by blast
  have "candidate_loop (jsnum_rem (Num d) 10) (jsnum_rem (jsnum_add (Num d) 5) 10) (now div 1000 + 1)
          = Some ((now div 1000 + 1 + int k) * 1000)"
    using k(2) k(1) by (rule candidate_loop_first_match)
  then have g: "getNextStartTime (Num d) now = Some ((now div 1000 + 1 + int k) * 1000)"
    by (simp only: getNextStartTime_def Let_def)
  have b: "\<forall>n>k. candidate_loop_bounded n (jsnum_rem (Num d) 10) (jsnum_rem (jsnum_add (Num d) 5) 10) (now div 1000 + 1)
          = Some ((now div 1000 + 1 + int k) * 1000)"
    using candidate_loop_bounded_first_match[OF k(2) k(1)] by blast
  have "0 \<le> now \<Longrightarrow> 0 \<le> now div 1000 + 1" by (simp add: pos_imp_zdiv_nonneg_iff)
  with k(3) have "0 \<le> now \<longrightarrow> k \<le> 4" by blast
  with g b k(1,2) show ?thesis by blast
qed

lemma next_second_after: "now < (now div 1000 + 1) * (1000::int)"
proof -
  have "now = now div 1000 * 1000 + now mod 1000" by simp
  moreover have "now mod 1000 < 1000" by simp
  ultimately show ?thesis by (simp add: algebra_simps)
qed

lemma ends_same_mod5:
  assumes "x mod 10 = d \<or> x mod 10 = (d + 5) mod 10"
  shows "x mod 5 = d mod (5::int)"
proof -
  have "x mod 10 mod 5 = x mod 5" by (simp add: mod_mod_cancel)
  moreover have "(d + 5) mod 10 mod 5 = d mod 5" by (simp add: mod_mod_cancel)
  ultimately show ?thesis using assms by metis
qed

lemma same_mod5_close:
  fixes s s' :: int
  assumes "s mod 5 = s' mod 5" "c \<le> s" "s \<le> c + 4" "c \<le> s'" "s' \<le> c + 4"
  shows "s = s'"
proof -
  have a: "s = 5 * (s div 5) + s mod 5" by simp
  have b: "s' = 5 * (s' div 5) + s mod 5" unfolding assms(1) by simp
  define q where "q = s div 5"
  define q' where "q' = s' div 5"
  define r where "r = s mod 5"
  from a b have "s = 5 * q + r" "s' = 5 * q' + r" by (simp_all only: q_def q'_def r_def)
  with assms(2-5) show ?thesis by arith
qed

lemma one_match_in_five:
  assumes "0 \<le> d" "d \<le> 9" "0 \<le> c"
  shows "\<exists>!s. c \<le> s \<and> s \<le> c + 4 \<and> ends_in d s"
proof -
  from match_ahead_nonneg[OF assms] obtain k where
    k: "k \<le> 4" "candidate_matches (jsnum_rem (Num d) 10) (jsnum_rem (jsnum_add (Num d) 5) 10) (c + int k)"
    by blast
  have ex: "c \<le> c + int k \<and> c + int k \<le> c + 4 \<and> ends_in d (c + int k)"
    using k(1) matches_ends_in[OF assms(1,2) k(2)] by simp
  have un: "s = s'" if s: "c \<le> s \<and> s \<le> c + 4 \<and> ends_in d s"
    and s': "c \<le> s' \<and> s' \<le> c + 4 \<and> ends_in d s'" for s s'
  proof -
    from s assms(3) have "\<bar>s\<bar> = s" by simp
    with s have "s mod 10 = d \<or> s mod 10 = (d + 5) mod 10"
      by (simp add: ends_in_def last_decimal_digit_def)
    then have 1: "s mod 5 = d mod 5" by (rule ends_same_mod5)
    from s' assms(3) have "\<bar>s'\<bar> = s'" by simp
    with s' have "s' mod 10 = d \<or> s' mod 10 = (d + 5) mod 10"
      by (simp add: ends_in_def last_decimal_digit_def)
    then have 2: "s' mod 5 = d mod 5" by (rule ends_same_mod5)
    from 1 2 have "s mod 5 = s' mod 5" by simp
    then show ?thesis using s s' by (intro same_mod5_close[of s s' c]) simp_all
  qed
  show ?thesis
  proof (rule ex1I[of _ "c + int k"])
    show "c \<le> c + int k \<and> c + int k \<le> c + 4 \<and> ends_in d (c + int k)" by (rule ex)
  next
    fix s assume "c \<le> s \<and> s \<le> c + 4 \<and> ends_in d s"
    then show "s = c + int k" using ex by (rule un)
  qed
qed

lemma candidate_loop_lower_bound:
  assumes "candidate_loop d1 d2 c = Some r"
  shows "c * 1000 \<le> r"
proof -
  have step: "c * 1000 \<le> r"
    if ih: "\<And>a b c r. loop a b c = Some r \<Longrightarrow> c * 1000 \<le> r"
      and eq: "(if candidate_matches a b c then Some (c * 1000) else loop a b (c + 1)) = Some r"
    for loop :: "jsnum \<Rightarrow> jsnum \<Rightarrow> int \<Rightarrow> int option" and a b c r
  proof (cases "candidate_matches a b c")
    case True
    with eq show ?thesis by simp
  next
    case False
    with eq have "loop a b (c + 1) = Some r" by simp
    then have "(c + 1) * 1000 \<le> r" by (rule ih)
    then show ?thesis by simp
  qed
  show ?thesis
    using step assms by (rule candidate_loop.raw_induct[where P = "\<lambda>_ _ c r. c * 1000 \<le> r"])
qed

lemma getNextStartTime_after_now:
  assumes "getNextStartTime digit now = Some r"
  shows "now < r"
proof -
  from assms have "candidate_loop (jsnum_rem digit 10) (jsnum_rem (jsnum_add digit 5) 10)
      (now div 1000 + 1) = Some r"
    by (simp add: getNextStartTime_def)
  then have "(now div 1000 + 1) * 1000 \<le> r" by (rule candidate_loop_lower_bound)
  with next_second_after[of now] show ?thesis by simp
qed

lemma candidate_loop_NaN: "candidate_loop NaN NaN c = None"
proof -
  have step: "False"
    if ih: "\<And>a b c r. loop a b c = Some r \<Longrightarrow> a = NaN \<Longrightarrow> b = NaN \<Longrightarrow> False"
      and eq: "(if candidate_matches a b c then Some (c * 1000) else loop a b (c + 1)) = Some r"
      and ab: "a = NaN" "b = NaN"
    for loop :: "jsnum \<Rightarrow> jsnum \<Rightarrow> int \<Rightarrow> int option" and a b c r
  proof -
    have "\<not> candidate_matches a b c" by (simp add: candidate_matches_def ab js_rem_def)
    with eq have "loop a b (c + 1) = Some r" by simp
    then show False using ab by (rule ih)
  qed
  have "False" if "candidate_loop NaN NaN c = Some r" for r
    using candidate_loop.raw_induct[where P = "\<lambda>a b c r. a = NaN \<longrightarrow> b = NaN \<longrightarrow> False", OF _ that]
      step by blast
  then show ?thesis by (cases "candidate_loop NaN NaN c") auto
qed

lemma getNextStartTime_NaN: "getNextStartTime NaN now = None"
  by (simp add: getNextStartTime_def candidate_loop_NaN)

text \<open>
  C1: for every digit \<open>d\<close> in \<open>0..9\<close> and every instant \<open>t\<close>, \<open>getNextStartTime\<close> called
  with \<open>d\<close> at time \<open>t\<close> returns, and its result is strictly greater than \<open>t\<close>, divisible
  by 1000, and the last decimal digit of its epoch second is \<open>d\<close> or \<open>(d + 5) mod 10\<close>.
\<close>

theorem getNextStartTime_future_aligned:
  assumes "0 \<le> d" and "d \<le> 9"
  shows "\<exists>r. getNextStartTime (Num d) t = Some r \<and> t < r \<and> r mod 1000 = 0
             \<and> ends_in d (epoch_second r)"
proof -
  from getNextStartTime_first[OF assms, of t] obtain k where
    g: "getNextStartTime (Num d) t = Some ((t div 1000 + 1 + int k) * 1000)" and
    m: "candidate_matches (jsnum_rem (Num d) 10) (jsnum_rem (jsnum_add (Num d) 5) 10) (t div 1000 + 1 + int k)"
    by blast
  have "t < (t div 1000 + 1) * 1000" by (rule next_second_after)
  also have "\<dots> \<le> (t div 1000 + 1 + int k) * 1000" by simp
  finally have 1: "t < (t div 1000 + 1 + int k) * 1000" .
  have 2: "(t div 1000 + 1 + int k) * 1000 mod 1000 = 0" by simp
  have e: "epoch_second ((t div 1000 + 1 + int k) * 1000) = t div 1000 + 1 + int k"
    unfolding epoch_second_def by (rule nonzero_mult_div_cancel_right) simp
  have 3: "ends_in d (epoch_second ((t div 1000 + 1 + int k) * 1000))"
    unfolding e by (rule matches_ends_in[OF assms m])
  show ?thesis
    by (rule exI[of _ "(t div 1000 + 1 + int k) * 1000"], intro conjI) (rule g 1 2 3)+
qed

theorem getNextStartTime_future_aligned_witness:
  "\<exists>r. getNextStartTime (Num 7) 1700000000123 = Some r \<and> 1700000000123 < r \<and> r mod 1000 = 0
       \<and> ends_in 7 (epoch_second r)"
  using getNextStartTime_future_aligned [of 7 1700000000123] by simp

text \<open>
  C2 as stated asks for the smallest instant strictly later than the start of the next whole
  second. At digit 5 and time 4500 the next whole second starts at 5000, and 5000 itself is
  returned. At digit 3 and the negative time -3500 the result is 3000, although the earlier
  instant -2999 lies in the epoch second -3, whose last decimal digit is 3: the remainder
  operator gives -3 there, which equals no digit.
\<close>

theorem getNextStartTime_not_least_strictly_after:
  "getNextStartTime (Num 5) 4500 = Some 5000
   \<and> \<not> ((4500 div 1000 + 1) * 1000 < (5000::int))
   \<and> getNextStartTime (Num 3) (- 3500) = Some 3000
   \<and> (- 3500 div 1000 + 1) * 1000 < (- 2999::int)
   \<and> ends_in 3 (epoch_second (- 2999))
   \<and> (- 2999::int) < 3000"
  by (simp add: getNextStartTime_def js_rem_def candidate_loop.simps candidate_matches_def
        ends_in_def last_decimal_digit_def epoch_second_def)

text \<open>
  C2, amended: for every digit \<open>d\<close> in \<open>0..9\<close> and every non-negative instant \<open>now\<close>,
  \<open>getNextStartTime\<close> returns the smallest instant at or after the start of the next whole
  second after \<open>now\<close>, that is \<open>(floor(now / 1000) + 1) * 1000\<close>, whose epoch second has last
  decimal digit \<open>d\<close> or \<open>(d + 5) mod 10\<close>.
\<close>

theorem getNextStartTime_least_from_next_second:
  assumes "0 \<le> d" and "d \<le> 9" and "0 \<le> now"
  shows "\<exists>r. getNextStartTime (Num d) now = Some r
             \<and> (now div 1000 + 1) * 1000 \<le> r \<and> ends_in d (epoch_second r)
             \<and> (\<forall>x. (now div 1000 + 1) * 1000 \<le> x \<and> ends_in d (epoch_second x) \<longrightarrow> r \<le> x)"
proof -
  let ?c = "now div 1000 + 1"
  from getNextStartTime_first[OF assms(1,2), of now] obtain k where
    g: "getNextStartTime (Num d) now = Some ((?c + int k) * 1000)" and
    m: "candidate_matches (jsnum_rem (Num d) 10) (jsnum_rem (jsnum_add (Num d) 5) 10) (?c + int k)" and
    f: "\<forall>j<k. \<not> candidate_matches (jsnum_rem (Num d) 10) (jsnum_rem (jsnum_add (Num d) 5) 10) (?c + int j)"
    by blast
  have c0: "0 \<le> ?c" using assms(3) by (simp add: pos_imp_zdiv_nonneg_iff)
  have 1: "?c * 1000 \<le> (?c + int k) * 1000" by simp
  have e: "epoch_second ((?c + int k) * 1000) = ?c + int k"
    unfolding epoch_second_def by (rule nonzero_mult_div_cancel_right) simp
  have 2: "ends_in d (epoch_second ((?c + int k) * 1000))"
    unfolding e by (rule matches_ends_in[OF assms(1,2) m])
  have 3: "(?c + int k) * 1000 \<le> x" if x: "?c * 1000 \<le> x" "ends_in d (epoch_second x)" for x
  proof -
    define s where "s = x div 1000"
    have "?c * 1000 div 1000 \<le> x div 1000" using x(1) by (rule zdiv_mono1) simp
    then have cs: "?c \<le> s" unfolding s_def by simp
    then have s0: "0 \<le> s" using c0 by simp
    from x(2) have "ends_in d s" by (simp add: epoch_second_def s_def)
    then have ms: "candidate_matches (jsnum_rem (Num d) 10) (jsnum_rem (jsnum_add (Num d) 5) 10) s"
      by (rule ends_in_matches[OF assms(1,2) s0])
    define j where "j = nat (s - ?c)"
    have sj: "s = ?c + int j" unfolding j_def using cs by simp
    have "\<not> j < k" using f ms sj by auto
    then have "?c + int k \<le> s" using sj by simp
    then have "(?c + int k) * 1000 \<le> s * 1000" by simp
    also have "s * 1000 \<le> x"
    proof -
      have "x = s * 1000 + x mod 1000" unfolding s_def by simp
      moreover have "0 \<le> x mod 1000" by simp
      ultimately show ?thesis by linarith
    qed
    finally show ?thesis .
  qed
  from 3 have 4: "\<forall>x. ?c * 1000 \<le> x \<and> ends_in d (epoch_second x) \<longrightarrow> (?c + int k) * 1000 \<le> x"
    by blast
  show ?thesis
    by (rule exI[of _ "(?c + int k) * 1000"], intro conjI) (rule g 1 2 4)+
qed

theorem getNextStartTime_least_from_next_second_witness:
  "\<exists>r. getNextStartTime (Num 5) 4500 = Some r
       \<and> (4500 div 1000 + 1) * 1000 \<le> r \<and> ends_in 5 (epoch_second r)
       \<and> (\<forall>x. (4500 div 1000 + 1) * 1000 \<le> x \<and> ends_in 5 (epoch_second x) \<longrightarrow> r \<le> x)"
  using getNextStartTime_least_from_next_second [of 5 4500] by simp

text \<open>
  C9: for every digit \<open>d\<close> in \<open>0..9\<close> and every non-negative instant \<open>now\<close>, the candidate
  search returns after examining at most 5 candidate seconds (the loop bounded by 5 returns,
  with the result of the unbounded loop), among any 5 consecutive non-negative epoch seconds
  exactly one has last digit \<open>d\<close> or \<open>(d + 5) mod 10\<close>, and the returned instant is at most
  \<open>now + 5000\<close>.
\<close>

theorem getNextStartTime_within_five_candidates:
  assumes "0 \<le> d" and "d \<le> 9" and "0 \<le> now"
  shows "(\<exists>r. candidate_loop_bounded 5 (jsnum_rem (Num d) 10) (jsnum_rem (jsnum_add (Num d) 5) 10)
                (now div 1000 + 1) = Some r
              \<and> getNextStartTime (Num d) now = Some r \<and> r \<le> now + 5000)
         \<and> (\<forall>c\<ge>0. \<exists>!s. c \<le> s \<and> s \<le> c + 4 \<and> ends_in d s)"
proof -
  let ?c = "now div 1000 + 1"
  from getNextStartTime_first[OF assms(1,2), of now] assms(3) obtain k where
    g: "getNextStartTime (Num d) now = Some ((?c + int k) * 1000)" and
    b: "\<forall>n>k. candidate_loop_bounded n (jsnum_rem (Num d) 10) (jsnum_rem (jsnum_add (Num d) 5) 10) ?c
         = Some ((?c + int k) * 1000)" and
    k4: "k \<le> 4"
    by blast
  from b k4 have b5: "candidate_loop_bounded 5 (jsnum_rem (Num d) 10) (jsnum_rem (jsnum_add (Num d) 5) 10) ?c
         = Some ((?c + int k) * 1000)" by simp
  have "now = now div 1000 * 1000 + now mod 1000" by simp
  moreover have "0 \<le> now mod 1000" by simp
  ultimately have "now div 1000 * 1000 \<le> now" by linarith
  moreover have "(?c + int k) * 1000 \<le> now div 1000 * 1000 + 5000" using k4 by (simp add: algebra_simps)
  ultimately have le: "(?c + int k) * 1000 \<le> now + 5000" by linarith
  have 1: "\<exists>r. candidate_loop_bounded 5 (jsnum_rem (Num d) 10) (jsnum_rem (jsnum_add (Num d) 5) 10) ?c = Some r
              \<and> getNextStartTime (Num d) now = Some r \<and> r \<le> now + 5000"
    by (rule exI[of _ "(?c + int k) * 1000"], intro conjI) (rule b5 g le)+
  have 2: "\<forall>c\<ge>0. \<exists>!s. c \<le> s \<and> s \<le> c + 4 \<and> ends_in d s"
    using one_match_in_five[OF assms(1,2)] by blast
  from 1 2 show ?thesis by (rule conjI)
qed

theorem getNextStartTime_within_five_candidates_witness:
  "(\<exists>r. candidate_loop_bounded 5 (jsnum_rem (Num 3) 10) (jsnum_rem (jsnum_add (Num 3) 5) 10)
                (1700000000999 div 1000 + 1) = Some r
              \<and> getNextStartTime (Num 3) 1700000000999 = Some r \<and> r \<le> 1700000000999 + 5000)
         \<and> (\<exists>!s. 1700000001 \<le> s \<and> s \<le> 1700000001 + 4 \<and> ends_in 3 s)"
proof -
  from getNextStartTime_within_five_candidates [of 3 1700000000999]
  have a: "\<exists>r. candidate_loop_bounded 5 (jsnum_rem (Num 3) 10) (jsnum_rem (jsnum_add (Num 3) 5) 10)
                (1700000000999 div 1000 + 1) = Some r
              \<and> getNextStartTime (Num 3) 1700000000999 = Some r \<and> r \<le> 1700000000999 + 5000"
    and b: "\<forall>c\<ge>0. \<exists>!s. c \<le> s \<and> s \<le> c + 4 \<and> ends_in 3 s"
    by simp_all
  from b have "0 \<le> (1700000001::int)
      \<longrightarrow> (\<exists>!s. 1700000001 \<le> s \<and> s \<le> 1700000001 + 4 \<and> ends_in 3 s)"
    by (rule spec)
  then have "\<exists>!s. 1700000001 \<le> s \<and> s \<le> 1700000001 + 4 \<and> ends_in 3 s"
    by simp
  with a show ?thesis by (rule conjI)
qed

section \<open>Properties of the codec\<close>

lemma nat_lt10_cases:
  "(idx::nat) < 10 \<Longrightarrow> idx \<in> {0, 1, 2, 3, 4, 5, 6, 7, 8, 9}"
  by auto

lemma is_digit_digit_char: "n < 10 \<Longrightarrow> is_digit (digit_char n)"
  by (drule nat_lt10_cases) (auto simp: is_digit_def digit_char_def)

lemma is_digit_not_special:
  "is_digit c \<Longrightarrow> c \<noteq> CHR ''&'' \<and> c \<noteq> CHR ''='' \<and> c \<noteq> CHR ''+'' \<and> c \<noteq> CHR ''%'' \<and> c \<noteq> CHR ''?''"
  by (auto simp: is_digit_def)

lemma urlencode_digit: "is_digit c \<Longrightarrow> urlencode [c] = [c]"
  by (auto simp: is_digit_def urlencode_def urlencode_byte_def)

lemma int_toString_digit: "n < 10 \<Longrightarrow> int_toString (int n) = [digit_char n]"
  by (simp add: int_toString_def)

lemma parseInt_digit: "n < 10 \<Longrightarrow> parseInt [digit_char n] = Num (int n)"
  by (drule nat_lt10_cases)
     (auto simp: digit_char_def parseInt_def parse_unsigned_def starts_with_def ws_length_def
        whitespace_def parse_digits_def digit_value_def)

lemma indexOf_COLORS: "c \<in> set COLORS \<Longrightarrow> indexOf COLORS (Str c) < 6 \<and> 0 \<le> indexOf COLORS (Str c)
   \<and> COLORS ! nat (indexOf COLORS (Str c)) = c"
  by (auto simp: COLORS_def indexOf_def)

lemma indexOf_PATTERNS: "p \<in> set PATTERNS \<Longrightarrow> indexOf PATTERNS (Str p) < 10 \<and> 0 \<le> indexOf PATTERNS (Str p)
   \<and> PATTERNS ! nat (indexOf PATTERNS (Str p)) = p"
  by (auto simp: PATTERNS_def indexOf_def)

lemma params_toString_digits:
  assumes "is_digit a" "is_digit b" "is_digit c" "is_digit d"
  shows "params_toString [(''c1'', [a]), (''c2'', [b]), (''p'', [c]), (''t'', [d])]
         = ''c1='' @ [a] @ ''&c2='' @ [b] @ ''&p='' @ [c] @ ''&t='' @ [d]"
proof -
  have n: "urlencode ''c1'' = ''c1''" "urlencode ''c2'' = ''c2''" "urlencode ''p'' = ''p''" "urlencode ''t'' = ''t''"
    by (simp_all add: urlencode_def urlencode_byte_def)
  show ?thesis
    by (simp add: params_toString_def n urlencode_digit assms)
qed

lemma new_URLSearchParams_digits:
  assumes "is_digit a" "is_digit b" "is_digit c" "is_digit d"
  shows "new_URLSearchParams (''?'' @ ''c1='' @ [a] @ ''&c2='' @ [b] @ ''&p='' @ [c] @ ''&t='' @ [d])
         = [(''c1'', [a]), (''c2'', [b]), (''p'', [c]), (''t'', [d])]"
  using assms[THEN is_digit_not_special]
  by (simp add: new_URLSearchParams_def starts_with_def parse_pair_def plus_to_space_def)

lemma decode_digits:
  assumes "i < 6" "j < 6" "p < 10" "t < 10"
  shows "decodeUrl (''?'' @ ''c1='' @ [digit_char i] @ ''&c2='' @ [digit_char j] @ ''&p='' @ [digit_char p] @ ''&t='' @ [digit_char t])
         = Some \<lparr>color1 = Str (COLORS ! i), color2 = Str (COLORS ! j), pattern = Str (PATTERNS ! p), timeOffset = Num (int t)\<rparr>"
proof -
  have d: "is_digit (digit_char i)" "is_digit (digit_char j)" "is_digit (digit_char p)" "is_digit (digit_char t)"
    using assms by (simp_all add: is_digit_digit_char)
  have pi: "parseInt [digit_char i] = Num (int i)" "parseInt [digit_char j] = Num (int j)"
     "parseInt [digit_char p] = Num (int p)" "parseInt [digit_char t] = Num (int t)"
    using assms by (simp_all add: parseInt_digit)
  have l: "length COLORS = 6" "length PATTERNS = 10" by (simp_all add: COLORS_def PATTERNS_def)
  show ?thesis
    unfolding decodeUrl_def new_URLSearchParams_digits[OF d]
    using assms by (simp add: params_has_def params_get_def parseInt_arg_def pi l)
qed

text \<open>
  C3: for every valid configuration \<open>c\<close>, the URL written by \<open>generateShareUrl\<close> ends in the
  query string of the parameters of \<open>c\<close>, and \<open>decodeUrl\<close> on that query string returns
  exactly \<open>c\<close>.
\<close>

theorem decodeUrl_generateShareUrl_roundtrip:
  assumes "valid_config c"
  shows "generateShareUrl (Some c) origin pathname
           = Some (origin @ pathname @ ''?'' @ params_toString (share_params c))
         \<and> decodeUrl (''?'' @ params_toString (share_params c)) = Some c"
proof -
  from assms obtain c1 c2 p t where
    f: "color1 c = Str c1" "color2 c = Str c2" "pattern c = Str p" "timeOffset c = Num t" and
    m: "c1 \<in> set COLORS" "c2 \<in> set COLORS" "p \<in> set PATTERNS" "0 \<le> t" "t \<le> 9"
    by (auto simp: valid_config_def)
  define i where "i = nat (indexOf COLORS (Str c1))"
  define j where "j = nat (indexOf COLORS (Str c2))"
  define k where "k = nat (indexOf PATTERNS (Str p))"
  define n where "n = nat t"
  have i: "indexOf COLORS (Str c1) = int i" "i < 6" "COLORS ! i = c1"
    using indexOf_COLORS[OF m(1)] by (auto simp: i_def)
  have j: "indexOf COLORS (Str c2) = int j" "j < 6" "COLORS ! j = c2"
    using indexOf_COLORS[OF m(2)] by (auto simp: j_def)
  have k: "indexOf PATTERNS (Str p) = int k" "k < 10" "PATTERNS ! k = p"
    using indexOf_PATTERNS[OF m(3)] by (auto simp: k_def)
  have n: "t = int n" "n < 10" using m(4,5) by (simp_all add: n_def)
  have sp: "share_params c = [(''c1'', [digit_char i]), (''c2'', [digit_char j]), (''p'', [digit_char k]), (''t'', [digit_char n])]"
    using i(2) j(2) k(2) n(2)
    by (simp add: share_params_def f i(1) j(1) k(1) n(1) int_toString_digit del: nat_toString.simps)
  have d: "is_digit (digit_char i)" "is_digit (digit_char j)" "is_digit (digit_char k)" "is_digit (digit_char n)"
    using i(2) j(2) k(2) n(2) by (simp_all add: is_digit_digit_char)
  have c: "c = \<lparr>color1 = Str (COLORS ! i), color2 = Str (COLORS ! j), pattern = Str (PATTERNS ! k), timeOffset = Num (int n)\<rparr>"
    by (simp add: f i(3) j(3) k(3) n(1)[symmetric])
  have 1: "generateShareUrl (Some c) origin pathname
           = Some (origin @ pathname @ ''?'' @ params_toString (share_params c))"
    by (simp add: generateShareUrl_def)
  have 2: "decodeUrl (''?'' @ params_toString (share_params c)) = Some c"
    unfolding sp params_toString_digits[OF d]
    by (subst c) (rule decode_digits[OF i(2) j(2) k(2) n(2)])
  from 1 2 show ?thesis by (rule conjI)
qed

theorem decodeUrl_generateShareUrl_roundtrip_witness:
  "valid_config \<lparr>color1 = Str ''--color-info'', color2 = Str ''--color-error'',
                  pattern = Str ''-----.'', timeOffset = Num 4\<rparr>
   \<and> generateShareUrl (Some \<lparr>color1 = Str ''--color-info'', color2 = Str ''--color-error'',
                  pattern = Str ''-----.'', timeOffset = Num 4\<rparr>) ''https://example.org'' ''/blink/''
       = Some ''https://example.org/blink/?c1=2&c2=5&p=8&t=4''
   \<and> decodeUrl ''?c1=2&c2=5&p=8&t=4''
       = Some \<lparr>color1 = Str ''--color-info'', color2 = Str ''--color-error'',
                  pattern = Str ''-----.'', timeOffset = Num 4\<rparr>"
proof -
  have v: "valid_config \<lparr>color1 = Str ''--color-info'', color2 = Str ''--color-error'',
                  pattern = Str ''-----.'', timeOffset = Num 4\<rparr>"
    by (simp add: valid_config_def COLORS_def PATTERNS_def)
  have s: "params_toString (share_params \<lparr>color1 = Str ''--color-info'', color2 = Str ''--color-error'',
                  pattern = Str ''-----.'', timeOffset = Num 4\<rparr>) = ''c1=2&c2=5&p=8&t=4''"
    by (simp add: share_params_def params_toString_def urlencode_def urlencode_byte_def
          indexOf_def COLORS_def PATTERNS_def int_toString_def digit_char_def)
  from decodeUrl_generateShareUrl_roundtrip [OF v, of "''https://example.org''" "''/blink/''"] v
  show ?thesis unfolding s by simp
qed

lemmas decode_eval = decodeUrl_def new_URLSearchParams_def parse_pair_def plus_to_space_def
  params_has_def params_get_def parseInt_arg_def parseInt_def parse_unsigned_def starts_with_def
  ws_length_def whitespace_def parse_digits_def digit_value_def COLORS_def PATTERNS_def

lemma decodeUrl_missing_parameter:
  assumes "\<not> params_has (new_URLSearchParams search) ''c1'' \<or> \<not> params_has (new_URLSearchParams search) ''c2''
         \<or> \<not> params_has (new_URLSearchParams search) ''p'' \<or> \<not> params_has (new_URLSearchParams search) ''t''"
  shows "decodeUrl search = None"
  using assms by (auto simp add: decodeUrl_def Let_def)

lemma decodeUrl_out_of_range:
  assumes "(\<exists>a. parseInt_arg (params_get (new_URLSearchParams search) ''c1'') = Num a \<and> (a < 0 \<or> 6 \<le> a))
         \<or> (\<exists>a. parseInt_arg (params_get (new_URLSearchParams search) ''c2'') = Num a \<and> (a < 0 \<or> 6 \<le> a))
         \<or> (\<exists>a. parseInt_arg (params_get (new_URLSearchParams search) ''p'') = Num a \<and> (a < 0 \<or> 10 \<le> a))
         \<or> (\<exists>a. parseInt_arg (params_get (new_URLSearchParams search) ''t'') = Num a \<and> (a < 0 \<or> 9 < a))"
  shows "decodeUrl search = None"
proof -
  have l: "length COLORS = 6" "length PATTERNS = 10"
    by (simp_all add: COLORS_def PATTERNS_def)
  from assms show ?thesis
    by (auto simp add: decodeUrl_def Let_def l)
qed

lemma decodeUrl_accepts_unparseable_offset:
  "decodeUrl ''?c1=0&c2=1&p=0&t=soon''
     = Some \<lparr>color1 = Str ''--color-secondary'', color2 = Str ''--color-accent'',
              pattern = Str ''..-..-.-..'', timeOffset = NaN\<rparr>"
  by (simp add: decode_eval)

text \<open>
  C4: \<open>decodeUrl\<close> returns \<open>null\<close> whenever one of \<open>c1\<close>, \<open>c2\<close>, \<open>p\<close>, \<open>t\<close> is missing,
  not parseable as an integer, or out of range. The code does so for a missing parameter
  (\<open>decodeUrl_missing_parameter\<close>) and for a parsed integer out of range
  (\<open>decodeUrl_out_of_range\<close>), but not for a value that is not parseable: \<open>parseInt\<close> gives \<open>NaN\<close>, every range comparison with \<open>NaN\<close> is false, and a
  configuration with an \<open>undefined\<close> colour is returned.
\<close>

theorem decodeUrl_accepts_unparseable_index:
  "decodeUrl ''?c1=x&c2=0&p=0&t=0''
     = Some \<lparr>color1 = Undefined, color2 = Str ''--color-secondary'',
              pattern = Str ''..-..-.-..'', timeOffset = Num 0\<rparr>"
  by (simp add: decode_eval)

theorem decodeUrl_accepts_unparseable_index_witness:
  "decodeUrl ''?c1=x&c2=0&p=0&t=0'' \<noteq> None
   \<and> map_option color1 (decodeUrl ''?c1=x&c2=0&p=0&t=0'') = Some Undefined"
  using decodeUrl_accepts_unparseable_index by simp

text \<open>
  \<open>decodeUrl\<close> compares each index with its table only, never the two colour indices with
  each other: equal indices decode to a configuration whose two colours are the same.
\<close>

lemma decodeUrl_equal_color_indices:
  "decodeUrl ''?c1=0&c2=0&p=0&t=0''
     = Some \<lparr>color1 = Str ''--color-secondary'', color2 = Str ''--color-secondary'',
              pattern = Str ''..-..-.-..'', timeOffset = Num 0\<rparr>"
  by (simp add: decode_eval)

text \<open>One call of \<open>getRandomColors\<close> returns two different colours, whatever it draws.\<close>

lemma getRandomColors_distinct:
  assumes "r1 < 6" and "r2 < 5"
  shows "ColorPair.color1 (getRandomColors r1 r2) \<noteq> ColorPair.color2 (getRandomColors r1 r2)"
proof -
  have c6: "r1 \<in> {0, 1, 2, 3, 4, 5}" using assms(1) by auto
  have c5: "r2 \<in> {0, 1, 2, 3, 4}" using assms(2) by auto
  from c6 c5 show ?thesis
    by (auto simp add: getRandomColors_def COLORS_def)
qed

text \<open>
  C10: \<open>decodeUrl\<close> can return a configuration with \<open>color1 = color2\<close> (above), whereas every
  configuration produced with \<open>getRandomColors\<close> at generation time has \<open>color1 \<noteq> color2\<close>.
  The second half fails on the code: \<open>handlePlayClick\<close> takes \<open>color1\<close> from one call of
  \<open>getRandomColors\<close> and \<open>color2\<close> from another. When the first call draws the pair
  (secondary, accent) and the second the pair (accent, secondary), each pair has two different
  colours and the configuration built from them has the same colour twice.
\<close>

theorem first_play_config_repeats_color:
  "getRandomColors 0 0 = ColorPair (Str ''--color-secondary'') (Str ''--color-accent'')
   \<and> getRandomColors 1 0 = ColorPair (Str ''--color-accent'') (Str ''--color-secondary'')
   \<and> first_play_config 0 0 1 0 0 0
       = \<lparr>color1 = Str ''--color-secondary'', color2 = Str ''--color-secondary'',
          pattern = Str ''..-..-.-..'', timeOffset = Num 0\<rparr>"
  by (simp add: first_play_config_def getRandomColors_def getRandomPattern_def COLORS_def
        PATTERNS_def)

section \<open>The pattern table\<close>

text \<open>
  C6 as stated gives every pattern 7 to 10 symbols. The ninth entry of the table has 6.
\<close>

theorem PATTERNS_entry_shorter_than_seven:
  "PATTERNS ! 8 = ''-----.'' \<and> length (PATTERNS ! 8) = 6 \<and> \<not> 7 \<le> length (PATTERNS ! 8)"
  by (simp add: PATTERNS_def)

text \<open>
  C6, amended: the table \<open>PATTERNS\<close> has exactly 10 entries, and every entry is a string over
  the alphabet of dot and dash whose length is between 6 and 10 inclusive.
\<close>

theorem PATTERNS_alphabet_and_lengths:
  "length PATTERNS = 10
   \<and> (\<forall>p \<in> set PATTERNS. set p \<subseteq> {CHR ''.'', CHR ''-''} \<and> 6 \<le> length p \<and> length p \<le> 10)"
  by (simp add: PATTERNS_def)

theorem PATTERNS_alphabet_and_lengths_witness:
  "length PATTERNS = 10 \<and> PATTERNS ! 8 \<in> set PATTERNS
   \<and> set (PATTERNS ! 8) \<subseteq> {CHR ''.'', CHR ''-''} \<and> 6 \<le> length (PATTERNS ! 8)
   \<and> length (PATTERNS ! 8) \<le> 10"
proof -
  have m: "PATTERNS ! 8 \<in> set PATTERNS" by (simp add: PATTERNS_def)
  from PATTERNS_alphabet_and_lengths have "length PATTERNS = 10"
    and "\<forall>p \<in> set PATTERNS. set p \<subseteq> {CHR ''.'', CHR ''-''} \<and> 6 \<le> length p \<and> length p \<le> 10"
    by blast+
  with m show ?thesis by blast
qed

section \<open>The pause flag\<close>

text \<open>
  C7: in the initial state and after every \<open>updateUI\<close> or \<open>setState\<close> call,
  \<open>shouldPauseBackground\<close> is true exactly when \<open>currentState\<close> is \<open>WELCOME\<close>; the transition to
  \<open>WELCOME\<close> raises the flag, the transitions to \<open>COUNTDOWN\<close> and \<open>RUNNING\<close> lower it.
\<close>

theorem pause_flag_tracks_phase:
  "shouldPauseBackground (initial_world p) = (currentState (initial_world p) = WELCOME)
   \<and> shouldPauseBackground (updateUI w) = (currentState (updateUI w) = WELCOME)
   \<and> currentState (updateUI w) = currentState w
   \<and> shouldPauseBackground (setState newState w) = (currentState (setState newState w) = WELCOME)
   \<and> currentState (setState newState w) = newState
   \<and> shouldPauseBackground (setState WELCOME w)
   \<and> \<not> shouldPauseBackground (setState COUNTDOWN w)
   \<and> \<not> shouldPauseBackground (setState RUNNING w)"
proof -
  have cc: "currentState (clear_countdown v) = currentState v" for v
    by (simp add: clear_countdown_def split: option.splits)
  have u: "shouldPauseBackground (updateUI v) = (currentState v = WELCOME)
           \<and> currentState (updateUI v) = currentState v" for v
    by (cases "currentState v") (simp_all add: updateUI_def Let_def cc)
  show ?thesis
    by (simp add: u setState_def initial_world_def)
qed

section \<open>The animation loop\<close>

lemma active_paint: "active env (paint c w) = active env w"
  by (simp add: active_def paint_def)

lemma paint_colour: "body_backgroundColor (document (paint c w)) = c"
  by (simp add: paint_def)

lemma reset_background_colour:
  "body_backgroundColor (document (reset_background env w)) = defaultColor env"
  by (simp add: reset_background_def paint_def)

lemma setState_RUNNING_active:
  "animationId env = currentAnimationId w \<Longrightarrow> active env (setState RUNNING w)"
  by (simp add: active_def setState_def updateUI_def clear_countdown_def Let_def split: option.splits)

lemma runPattern_loop_step:
  assumes "active env w" "pattern (config env) = Str pat" "i < length pat"
  shows "runPattern_loop env now i c w
         = (paint c w,
            Await (if pat ! i = CHR ''.'' then DOT else if pat ! i = CHR ''-'' then DASH else 0)
                  (StepWait i c))"
  using assms by (simp add: active_def Let_def)

lemma runPattern_complete_cases:
  "runPattern_complete env now w = (reset_background env w, Hang)
   \<or> (\<exists>delay. runPattern_complete env now w = (reset_background env w, Await delay NextCycleWait))"
proof (cases "getNextStartTime (timeOffset (config env)) now")
  case None
  then show ?thesis by (simp add: Let_def)
next
  case (Some n)
  then have "0 < n - now" using getNextStartTime_after_now by simp
  with Some show ?thesis by (simp add: Let_def)
qed

lemma runPattern_loop_end:
  assumes "pattern (config env) = Str pat" "\<not> i < length pat"
  shows "runPattern_loop env now i c w = runPattern_complete env now w"
  using assms by (simp del: runPattern_complete.simps)

lemma resume_step:
  assumes "active env w" "pattern (config env) = Str pat" "Suc i < length pat"
  shows "resume env now (StepWait i c) w
         = (paint (if c = color1Value env then color2Value env else color1Value env) w,
            Await (if pat ! Suc i = CHR ''.'' then DOT else if pat ! Suc i = CHR ''-'' then DASH else 0)
                  (StepWait (Suc i) (if c = color1Value env then color2Value env else color1Value env)))"
  using runPattern_loop_step[OF assms, of now "if c = color1Value env then color2Value env else color1Value env"]
  by (simp add: runPattern_after_step_def del: runPattern_loop.simps)

lemma resume_last_step:
  assumes "pattern (config env) = Str pat" "\<not> Suc i < length pat"
  shows "resume env now (StepWait i c) w = runPattern_complete env now w"
  using runPattern_loop_end[OF assms, of now _ w]
  by (simp add: runPattern_after_step_def del: runPattern_loop.simps runPattern_complete.simps)

lemma uninterrupted_last:
  assumes "resume env t pt w = (reset_background env w, Hang)
   \<or> (\<exists>delay. resume env t pt w = (reset_background env w, Await delay NextCycleWait))"
  shows "uninterrupted (Suc 0) env t pt w = [(t, defaultColor env)]"
  using assms by (auto simp add: reset_background_colour)

lemma uninterrupted_await:
  assumes "resume env t pt w = (w', Await delay pt')"
  shows "uninterrupted (Suc n) env t pt w
         = (t, body_backgroundColor (document w')) # uninterrupted n env (t + delay) pt' w'"
  using assms by simp

lemma dot_dot_dash_timeline:
  assumes p: "pattern (config env) = Str ''..-''"
    and a: "animationId env = currentAnimationId w" "\<not> shouldPauseBackground w"
  shows "uninterrupted 4 env T StartWait w
         = [(T, color1Value env), (T + 250, color2Value env), (T + 500, color1Value env),
            (T + 1250, defaultColor env)]"
proof -
  define w0 where "w0 = setState RUNNING
     (if phoneHolder_found env
      then w\<lparr>isBackgroundFlashing := True,
             document := (document (w\<lparr>isBackgroundFlashing := True\<rparr>))\<lparr>phoneHolder_color := ''white''\<rparr>\<rparr>
      else w\<lparr>isBackgroundFlashing := True\<rparr>)"
  have a0: "active env w0"
    unfolding w0_def using a(1) by (intro setState_RUNNING_active) simp
  define w1 where "w1 = paint (color1Value env) w0"
  define w2 where "w2 = paint (color2Value env) w1"
  define w3 where "w3 = paint (color1Value env) w2"
  have a1: "active env w1" and a2: "active env w2" and a3: "active env w3"
    using a0 by (simp_all add: w1_def w2_def w3_def active_paint)
  have b: "body_backgroundColor (document w1) = color1Value env"
    "body_backgroundColor (document w2) = color2Value env"
    "body_backgroundColor (document w3) = color1Value env"
    by (simp_all only: w1_def w2_def w3_def paint_colour)
  have r1: "resume env T StartWait w = (w1, Await 250 (StepWait 0 (color1Value env)))"
    using a runPattern_loop_step[OF a0 p, of 0 T "color1Value env"]
    by (simp add: Let_def w0_def[symmetric] w1_def DOT_def del: runPattern_loop.simps)
  have r2: "resume env (T + 250) (StepWait 0 (color1Value env)) w1
            = (w2, Await 250 (StepWait (Suc 0) (color2Value env)))"
    using resume_step[OF a1 p, of 0 "T + 250" "color1Value env"]
    by (simp add: w2_def DOT_def)
  have r3: "resume env (T + 250 + 250) (StepWait (Suc 0) (color2Value env)) w2
            = (w3, Await 750 (StepWait (Suc (Suc 0)) (color1Value env)))"
    using resume_step[OF a2 p, of "Suc 0" "T + 250 + 250" "color2Value env"]
    by (simp add: w3_def DASH_def)
  have r4: "resume env (T + 250 + 250 + 750) (StepWait (Suc (Suc 0)) (color1Value env)) w3
            = runPattern_complete env (T + 250 + 250 + 750) w3"
    by (rule resume_last_step[OF p]) simp
  have l: "uninterrupted (Suc 0) env (T + 250 + 250 + 750) (StepWait (Suc (Suc 0)) (color1Value env)) w3
           = [(T + 250 + 250 + 750, defaultColor env)]"
    by (rule uninterrupted_last) (simp only: r4 runPattern_complete_cases)
  have "uninterrupted (Suc (Suc (Suc (Suc 0)))) env T StartWait w
         = [(T, color1Value env), (T + 250, color2Value env), (T + 250 + 250, color1Value env),
            (T + 250 + 250 + 750, defaultColor env)]"
    by (simp only: uninterrupted_await[OF r1] uninterrupted_await[OF r2] uninterrupted_await[OF r3] l b)
  then show ?thesis by (simp add: eval_nat_numeral)
qed

lemmas example_eval = example_animation_def example_world_def example_config_def
  example_page_def animation_closure_def initial_world_def start_countdown_def setState_def
  updateUI_def clear_countdown_def

lemma example_animation_fields:
  "pattern (config example_animation) = Str ''..-''"
  "animationId example_animation = 1"
  "color1Value example_animation = ''red''"
  "color2Value example_animation = ''blue''"
  "defaultColor example_animation = ''grey''"
  by (simp_all add: example_eval)

lemma example_world_fields:
  "currentAnimationId example_world = 1"
  "\<not> shouldPauseBackground example_world"
  by (simp_all add: example_eval)

text \<open>
  C5 as stated has the second colour over \<open>[T + 250, T + 1000)\<close> and the reset at \<open>T + 1000\<close>.
  With \<open>T = 0\<close>, red as first and blue as second colour, the background is red at \<open>500\<close>
  and still red at \<open>1000\<close>.
\<close>

theorem dot_dot_dash_not_as_stated:
  "pattern (config example_animation) = Str ''..-''
   \<and> color1Value example_animation = ''red''
   \<and> color2Value example_animation = ''blue''
   \<and> defaultColor example_animation = ''grey''
   \<and> background_at (uninterrupted 4 example_animation 0 StartWait example_world) 500 = Some ''red''
   \<and> background_at (uninterrupted 4 example_animation 0 StartWait example_world) 1000 = Some ''red''"
proof -
  have "uninterrupted 4 example_animation 0 StartWait example_world
        = [(0, ''red''), (250, ''blue''), (500, ''red''), (1250, ''grey'')]"
    using dot_dot_dash_timeline[of example_animation example_world 0]
    by (simp add: example_animation_fields example_world_fields)
  then show ?thesis by (simp add: example_animation_fields)
qed

text \<open>
  C5, amended: for the pattern \<open>..-\<close> started uninterrupted at instant \<open>T\<close>, the visible
  background is \<open>color1\<close> over \<open>[T, T + 250)\<close>, \<open>color2\<close> over \<open>[T + 250, T + 500)\<close>, \<open>color1\<close>
  over \<open>[T + 500, T + 1250)\<close>, and it is reset to the neutral default colour at \<open>T + 1250\<close>;
  the colour toggled after the last character is never painted.
\<close>

theorem dot_dot_dash_background:
  assumes "pattern (config env) = Str ''..-''"
    and "animationId env = currentAnimationId w"
    and "\<not> shouldPauseBackground w"
  shows "uninterrupted 4 env T StartWait w
           = [(T, color1Value env), (T + 250, color2Value env), (T + 500, color1Value env),
              (T + 1250, defaultColor env)]
         \<and> (\<forall>t. T \<le> t \<and> t < T + 250 \<longrightarrow>
               background_at (uninterrupted 4 env T StartWait w) t = Some (color1Value env))
         \<and> (\<forall>t. T + 250 \<le> t \<and> t < T + 500 \<longrightarrow>
               background_at (uninterrupted 4 env T StartWait w) t = Some (color2Value env))
         \<and> (\<forall>t. T + 500 \<le> t \<and> t < T + 1250 \<longrightarrow>
               background_at (uninterrupted 4 env T StartWait w) t = Some (color1Value env))
         \<and> background_at (uninterrupted 4 env T StartWait w) (T + 1250) = Some (defaultColor env)"
  unfolding dot_dot_dash_timeline[OF assms] by simp

theorem dot_dot_dash_background_witness:
  "pattern (config example_animation) = Str ''..-''
   \<and> animationId example_animation = currentAnimationId example_world
   \<and> \<not> shouldPauseBackground example_world
   \<and> uninterrupted 4 example_animation 0 StartWait example_world
        = [(0, ''red''), (250, ''blue''), (500, ''red''), (1250, ''grey'')]
   \<and> background_at (uninterrupted 4 example_animation 0 StartWait example_world) 300 = Some ''blue''
   \<and> background_at (uninterrupted 4 example_animation 0 StartWait example_world) 1250 = Some ''grey''"
proof -
  have h1: "pattern (config example_animation) = Str ''..-''"
    and h2: "animationId example_animation = currentAnimationId example_world"
    and h3: "\<not> shouldPauseBackground example_world"
    by (simp_all add: example_animation_fields example_world_fields)
  from dot_dot_dash_background [OF h1 h2 h3, of 0] h1 h2 h3 show ?thesis
    by (simp add: example_animation_fields)
qed

lemmas scenario_eval = superseded_world_def second_animation_def second_config_def
  replayed_world_def world_in_dash_def first_animation_def first_config_def
  handleCancelClick_def runPattern_after_step_def paint_def reset_background_def DOT_def DASH_def
  Let_def example_eval

lemma first_animation_fields:
  "pattern (config first_animation) = Str ''..-..-.-..''"
  "timeOffset (config first_animation) = Num 0"
  "animationId first_animation = 1"
  "defaultColor first_animation = ''grey''"
  "color1Value first_animation = ''red''"
  "color2Value first_animation = ''blue''"
  by (simp_all add: first_animation_def first_config_def example_eval)

lemma superseded_world_value:
  "superseded_world =
     \<lparr>currentState = RUNNING,
      isBackgroundFlashing = True,
      shouldPauseBackground = False,
      countdownIntervalId = None,
      currentAnimationId = 2,
      intervals = [],
      document = example_page\<lparr>body_backgroundColor := ''blue'',
                                phoneHolder_color := ''white'',
                                playButton_hidden := True,
                                cancelButton_hidden := False,
                                countdownText_hidden := True,
                                countdownText_content := ''Starting in 3'',
                                instructions_hidden := True\<rparr>\<rparr>"
  by (simp add: scenario_eval)

text \<open>
  C8 as stated lets a superseded loop write nothing. In the scenario of \<open>superseded_world\<close>
  the timer of the cancelled generation \<open>1\<close> fires at \<open>1250\<close>: the loop finds its generation
  superseded, and it resets the background, which generation \<open>2\<close> had painted blue, to grey
  and lowers the flashing flag that generation \<open>2\<close> had raised.
\<close>

theorem stale_loop_resets_background:
  "getNextStartTime (Num 1) 700 = Some 1000
   \<and> animationId second_animation = currentAnimationId superseded_world
   \<and> animationId first_animation \<noteq> currentAnimationId superseded_world
   \<and> body_backgroundColor (document superseded_world) = ''blue''
   \<and> isBackgroundFlashing superseded_world
   \<and> body_backgroundColor (document (fst (resume first_animation 1250 (StepWait 2 ''red'')
         superseded_world))) = ''grey''
   \<and> \<not> isBackgroundFlashing (fst (resume first_animation 1250 (StepWait 2 ''red'')
         superseded_world))"
proof -
  have g: "getNextStartTime (Num 1) 700 = Some 1000"
    by (simp add: getNextStartTime_def js_rem_def candidate_loop.simps candidate_matches_def)
  have s: "animationId second_animation = 2"
    by (simp add: second_animation_def animation_closure_def)
  have r: "resume first_animation 1250 (StepWait 2 ''red'') superseded_world
           = (reset_background first_animation superseded_world, Returned)"
    by (simp add: runPattern_after_step_def first_animation_fields superseded_world_value)
  show ?thesis
    unfolding r by (simp add: g s first_animation_fields superseded_world_value reset_background_def paint_def)
qed

text \<open>
  C8, amended: once the \<open>animationId\<close> captured by a loop differs from \<open>currentAnimationId\<close>,
  a resumption of the loop never paints a pattern colour: it leaves the world as it is or
  resets the background to the neutral default colour and lowers \<open>isBackgroundFlashing\<close>, and
  it returns at once or waits one more time, after which it returns without a write. (For a
  configuration whose pattern is a string and whose time offset is a digit.)
\<close>

theorem stale_loop_only_resets:
  assumes stale: "animationId env \<noteq> currentAnimationId w"
    and pat: "pattern (config env) = Str pat"
    and off: "timeOffset (config env) = Num d" "0 \<le> d" "d \<le> 9"
  shows "(fst (resume env now pt w) = w \<or> fst (resume env now pt w) = reset_background env w)
         \<and> (snd (resume env now pt w) = Returned
             \<or> (\<exists>delay pt'. snd (resume env now pt w) = Await delay pt'
                  \<and> (\<forall>now' w2. animationId env \<noteq> currentAnimationId w2
                        \<longrightarrow> resume env now' pt' w2 = (w2, Returned))))"
proof -
  have again: "\<forall>now' w2. animationId env \<noteq> currentAnimationId w2
                 \<longrightarrow> resume env now' pt' w2 = (w2, Returned)"
    if "pt' = PausePoll \<or> pt' = NextCycleWait" for pt'
    using that by auto
  show ?thesis
  proof (cases pt)
    case PausePoll
    with stale show ?thesis by simp
  next
    case NextCycleWait
    with stale show ?thesis by simp
  next
    case StartWait
    show ?thesis
    proof (cases "shouldPauseBackground w")
      case True
      then have "resume env now pt w = (w, Await 100 PausePoll)"
        using StartWait by simp
      with again[of PausePoll] show ?thesis by simp
    next
      case False
      then have "resume env now pt w = (w, Returned)"
        using StartWait stale by simp
      then show ?thesis by simp
    qed
  next
    case (StepWait i c)
    show ?thesis
    proof (cases "Suc i < length pat")
      case True
      then have "resume env now pt w = (reset_background env w, Returned)"
        using StepWait stale pat by (simp add: runPattern_after_step_def)
      then show ?thesis by simp
    next
      case False
      from getNextStartTime_first[OF off(2,3), of now] obtain n where
        n: "getNextStartTime (Num d) now = Some n" by blast
      then have "0 < n - now" using getNextStartTime_after_now by simp
      with n have "runPattern_complete env now w
                   = (reset_background env w, Await (n - now) NextCycleWait)"
        by (simp add: off(1) Let_def)
      with resume_last_step[OF pat False, of now c w] StepWait
      have "resume env now pt w = (reset_background env w, Await (n - now) NextCycleWait)"
        by simp
      with again[of NextCycleWait] show ?thesis by simp
    qed
  qed
qed

theorem stale_loop_only_resets_witness:
  "animationId first_animation \<noteq> currentAnimationId superseded_world
   \<and> pattern (config first_animation) = Str ''..-..-.-..''
   \<and> timeOffset (config first_animation) = Num 0
   \<and> (fst (resume first_animation 1250 (StepWait 2 ''red'') superseded_world) = superseded_world
       \<or> fst (resume first_animation 1250 (StepWait 2 ''red'') superseded_world)
          = reset_background first_animation superseded_world)
   \<and> (snd (resume first_animation 1250 (StepWait 2 ''red'') superseded_world) = Returned
       \<or> (\<exists>delay pt'. snd (resume first_animation 1250 (StepWait 2 ''red'') superseded_world)
                         = Await delay pt'
            \<and> (\<forall>now' w2. animationId first_animation \<noteq> currentAnimationId w2
                  \<longrightarrow> resume first_animation now' pt' w2 = (w2, Returned))))"
proof -
  have h1: "animationId first_animation \<noteq> currentAnimationId superseded_world"
    and h2: "pattern (config first_animation) = Str ''..-..-.-..''"
    and h3: "timeOffset (config first_animation) = Num 0"
    by (simp_all add: first_animation_fields superseded_world_value)
  have h4: "(0::int) \<le> 0" and h5: "(0::int) \<le> 9" by simp_all
  from stale_loop_only_resets [OF h1 h2 h3 h4 h5, of 1250 "StepWait 2 ''red''"] h1 h2 h3
  show ?thesis by blast
qed

end
